theory Spec2Isabelle
  imports Complex_Main
begin

section \<open>The module's globals\<close>

text \<open>
  \<^verbatim>\<open>app.py\<close> keeps its data in module-level dictionaries and one float. They are the
  fields of the record \<open>server\<close>, and every handler takes the record and returns it
  updated.

  A form field read with \<^verbatim>\<open>request.form.get(k)\<close> is \<open>None\<close> when the request does not
  carry it, so a form is a partial map and what the handlers read from it are values of
  type \<open>string option\<close>. The client a token is bound to is such a value too: the handler
  stores whatever \<^verbatim>\<open>request.form.get('client_id')\<close> gave.

  \<^verbatim>\<open>VALID_CLIENTS\<close> and the four \<^verbatim>\<open>JENKINS_*\<close> names are used by the file and
  assigned nowhere in it; they are the fields of the record \<open>config\<close>, a parameter of
  the handlers that read them.
\<close>

type_synonym form = "string \<rightharpoonup> string"

type_synonym token_store = "string \<rightharpoonup> string option"

record config =
  VALID_CLIENTS :: "string \<rightharpoonup> string"
  JENKINS_WEBHOOK_URL :: string
  JENKINS_USER :: string
  JENKINS_API_TOKEN :: string
  JENKINS_TOKEN :: string

text \<open>
  The field \<open>trace\<close> is not a variable of the program. It lists, in program order, the
  effects of the smart-home handler that other threads or the outside can see: taking
  and releasing \<^verbatim>\<open>execution_lock\<close>, the writes to \<^verbatim>\<open>device_states\<close> and to
  \<^verbatim>\<open>last_trigger_time\<close>, and the call of \<^verbatim>\<open>requests.post\<close> (with its url, query
  parameters, credentials and timeout).
\<close>

datatype event =
    LockAcquire
  | LockRelease
  | WriteDeviceState string bool
  | WriteLastTrigger real
  | RequestsPost string "(string \<times> string) list" "string \<times> string" nat

record server =
  access_tokens :: token_store
  refresh_tokens :: token_store
  auth_codes :: "string \<rightharpoonup> (string option \<times> string option)"
  device_states :: "string \<rightharpoonup> bool"
  last_trigger_time :: real
  tokens_file :: "(token_store \<times> token_store) option"
  trace :: "event list"

definition MIN_INTERVAL :: real where
  "MIN_INTERVAL = 10"

subsection \<open>Dictionary operations with a key that may be \<open>None\<close>\<close>

text \<open>
  The keys of every dictionary here are strings, so \<^verbatim>\<open>d.get(None)\<close> and
  \<^verbatim>\<open>d.pop(None, None)\<close> find nothing. \<^verbatim>\<open>d.get(k)\<close> on a token store returns the
  stored client, and \<open>None\<close> both for a missing key and for a key bound to \<open>None\<close>.
\<close>

definition dict_get :: "('k \<rightharpoonup> 'v) \<Rightarrow> 'k option \<Rightarrow> 'v option" where
  "dict_get d k = (case k of None \<Rightarrow> None | Some k' \<Rightarrow> d k')"

definition store_get :: "('k \<rightharpoonup> 'v option) \<Rightarrow> 'k option \<Rightarrow> 'v option" where
  "store_get d k = (case dict_get d k of None \<Rightarrow> None | Some v \<Rightarrow> v)"

definition dict_pop :: "('k \<rightharpoonup> 'v) \<Rightarrow> 'k option \<Rightarrow> 'v option \<times> ('k \<rightharpoonup> 'v)" where
  "dict_pop d k = (case k of None \<Rightarrow> (None, d) | Some k' \<Rightarrow> (d k', d(k' := None)))"

definition form_get :: "form \<Rightarrow> string \<Rightarrow> string \<Rightarrow> string" where
  "form_get f k dflt = (case f k of None \<Rightarrow> dflt | Some v \<Rightarrow> v)"

subsection \<open>Persistence and start-up\<close>

definition save_tokens_to_file :: "server \<Rightarrow> server" where
  "save_tokens_to_file s = s\<lparr>tokens_file := Some (access_tokens s, refresh_tokens s)\<rparr>"

definition load_tokens_from_file :: "(token_store \<times> token_store) option \<Rightarrow> token_store \<times> token_store" where
  "load_tokens_from_file file = (case file of None \<Rightarrow> (Map.empty, Map.empty) | Some d \<Rightarrow> d)"

definition startup :: "(token_store \<times> token_store) option \<Rightarrow> server" where
  "startup file =
     \<lparr>access_tokens = fst (load_tokens_from_file file),
      refresh_tokens = snd (load_tokens_from_file file),
      auth_codes = Map.empty,
      device_states = [''jenkins_job'' \<mapsto> False],
      last_trigger_time = 0,
      tokens_file = file,
      trace = []\<rparr>"

section \<open>The OAuth2 endpoints\<close>

text \<open>
  \<^verbatim>\<open>secrets.token_urlsafe(n)\<close> is the handlers' only source of randomness. A handler
  calls it at most once for each \<open>n\<close>, so the parameter \<open>token_urlsafe\<close> gives, for each
  \<open>n\<close>, the string that call returns in the request at hand.
\<close>

datatype http_method = GET | POST

datatype py_error = TypeError

datatype authorize_response =
    LoginPage "string option" "string option" string
  | PlainText string nat
  | Redirect string

text \<open>
  \<^verbatim>\<open>/authorize\<close>. A GET answers 400 unless \<^verbatim>\<open>client_id in VALID_CLIENTS\<close>, else renders
  the login form. Any other method runs the rest of the function: it reads the form
  (user name and password are read and never used), draws a code, stores it, and only
  then evaluates \<^verbatim>\<open>'?' in redirect_uri\<close>, which raises \<open>TypeError\<close> when the form has
  no \<^verbatim>\<open>redirect_uri\<close>.
\<close>

definition authorize ::
  "config \<Rightarrow> http_method \<Rightarrow> form \<Rightarrow> form \<Rightarrow> (nat \<Rightarrow> string) \<Rightarrow> server
     \<Rightarrow> (py_error + authorize_response) \<times> server" where
  "authorize cfg meth args frm token_urlsafe s =
     (if meth = GET then
        (let client_id = args ''client_id'';
             redirect_uri = args ''redirect_uri'';
             state = form_get args ''state'' ''''
         in if dict_get (VALID_CLIENTS cfg) client_id = None
            then (Inr (PlainText ''Unknown client_id'' 400), s)
            else (Inr (LoginPage client_id redirect_uri state), s))
      else
        (let client_id = frm ''client_id'';
             redirect_uri = frm ''redirect_uri'';
             state = form_get frm ''state'' '''';
             code = token_urlsafe 8;
             s1 = s\<lparr>auth_codes := (auth_codes s)(code \<mapsto> (client_id, redirect_uri))\<rparr>
         in case redirect_uri of
              None \<Rightarrow> (Inl TypeError, s1)
            | Some uri \<Rightarrow>
                (let separator = (if CHR ''?'' \<in> set uri then ''&'' else ''?'')
                 in (Inr (Redirect (uri @ separator @ ''code='' @ code @ ''&state='' @ state)), s1))))"

text \<open>
  The JSON bodies of \<^verbatim>\<open>/token\<close>: \<^verbatim>\<open>{error: e}\<close>, or the grant with its access token,
  token type, lifetime and, for a code exchange only, the refresh token. A response is
  the body with the HTTP status.
\<close>

datatype token_body =
    ErrorBody string
  | GrantBody string string nat "string option"

definition token ::
  "config \<Rightarrow> form \<Rightarrow> (nat \<Rightarrow> string) \<Rightarrow> server \<Rightarrow> (token_body \<times> nat) \<times> server" where
  "token cfg frm token_urlsafe s =
     (let grant_type = frm ''grant_type'' in
      if grant_type = Some ''authorization_code'' then
        (let code = frm ''code'';
             redirect_uri = frm ''redirect_uri'';
             client_id = frm ''client_id'';
             client_secret = frm ''client_secret''
         in if dict_get (VALID_CLIENTS cfg) client_id \<noteq> client_secret
            then ((ErrorBody ''invalid_client'', 401), s)
            else
              (let stored = fst (dict_pop (auth_codes s) code);
                   s1 = s\<lparr>auth_codes := snd (dict_pop (auth_codes s) code)\<rparr>
               in case stored of
                    None \<Rightarrow> ((ErrorBody ''invalid_grant'', 400), s1)
                  | Some (stored_client, stored_uri) \<Rightarrow>
                      if stored_client \<noteq> client_id \<or> stored_uri \<noteq> redirect_uri
                      then ((ErrorBody ''invalid_grant'', 400), s1)
                      else
                        (let access_token = token_urlsafe 16;
                             refresh_token = token_urlsafe 24;
                             s2 = s1\<lparr>access_tokens := (access_tokens s1)(access_token \<mapsto> client_id)\<rparr>;
                             s3 = s2\<lparr>refresh_tokens := (refresh_tokens s2)(refresh_token \<mapsto> client_id)\<rparr>
                         in ((GrantBody access_token ''Bearer'' 3600 (Some refresh_token), 200),
                             save_tokens_to_file s3))))
      else if grant_type = Some ''refresh_token'' then
        (let refresh_token = frm ''refresh_token'';
             client_id = frm ''client_id'';
             client_secret = frm ''client_secret''
         in if dict_get (VALID_CLIENTS cfg) client_id \<noteq> client_secret
            then ((ErrorBody ''invalid_client'', 401), s)
            else if store_get (refresh_tokens s) refresh_token \<noteq> client_id
            then ((ErrorBody ''invalid_grant'', 400), s)
            else
              (let new_token = token_urlsafe 16;
                   s1 = s\<lparr>access_tokens := (access_tokens s)(new_token \<mapsto> client_id)\<rparr>
               in ((GrantBody new_token ''Bearer'' 3600 None, 200), save_tokens_to_file s1)))
      else ((ErrorBody ''unsupported_grant_type'', 400), s))"

section \<open>The smart-home endpoint\<close>

subsection \<open>The cooldown gate\<close>

text \<open>
  What \<^verbatim>\<open>requests.post\<close> does when it is called: it returns a response with a status
  code, or raises a \<^verbatim>\<open>requests.RequestException\<close> (connection failure, timeout).
\<close>

datatype http_outcome = Response nat | RequestException

definition emit :: "event \<Rightarrow> server \<Rightarrow> server" where
  "emit e s = s\<lparr>trace := trace s @ [e]\<rparr>"

text \<open>
  \<^verbatim>\<open>with execution_lock:\<close> takes the lock, runs its body, and releases the lock when
  the body is left, by a \<^verbatim>\<open>return\<close> as well.
\<close>

definition with_execution_lock :: "(server \<Rightarrow> 'a \<times> server) \<Rightarrow> server \<Rightarrow> 'a \<times> server" where
  "with_execution_lock body s =
     (let entered = body (emit LockAcquire s)
      in (fst entered, emit LockRelease (snd entered)))"

text \<open>
  \<^verbatim>\<open>trigger_jenkins(action)\<close>. Its two inputs from outside the program are parameters:
  \<open>time_time\<close>, the value \<^verbatim>\<open>time.time()\<close> returns (a float in the source, a real
  number here), and \<open>post_outcome\<close>, what \<^verbatim>\<open>requests.post\<close> does if it is called. The
  whole body of the function, the call of \<^verbatim>\<open>requests.post\<close> included, is inside the
  \<^verbatim>\<open>with\<close> block. The two \<^verbatim>\<open>print\<close> calls are left out.
\<close>

definition trigger_jenkins ::
  "config \<Rightarrow> string \<Rightarrow> real \<Rightarrow> http_outcome \<Rightarrow> server \<Rightarrow> bool \<times> server" where
  "trigger_jenkins cfg action time_time post_outcome =
     with_execution_lock (\<lambda>s.
       let current_time = time_time in
       if current_time - last_trigger_time s < MIN_INTERVAL then (False, s)
       else
         (let s1 = emit (WriteLastTrigger current_time) (s\<lparr>last_trigger_time := current_time\<rparr>);
              params = [(''token'', JENKINS_TOKEN cfg), (''action'', action), (''autoApprove'', ''true'')];
              s2 = emit (RequestsPost (JENKINS_WEBHOOK_URL cfg) params
                           (JENKINS_USER cfg, JENKINS_API_TOKEN cfg) 5) s1
          in case post_outcome of
               Response status_code \<Rightarrow> (status_code = 200, s2)
             | RequestException \<Rightarrow> (False, s2)))"

subsection \<open>Requests and responses\<close>

text \<open>
  The handler indexes into the JSON body with \<^verbatim>\<open>[...]\<close>; the body is taken to have the
  keys and first list elements it reads that way. \<open>devices\<close> holds the \<^verbatim>\<open>'id'\<close> of each
  entry of \<^verbatim>\<open>cmd['devices']\<close>, and \<open>params\<close> is \<^verbatim>\<open>cmd['execution'][0]['params']\<close>, a
  dictionary whose values are taken to be booleans; its key \<^verbatim>\<open>'on'\<close> is read with
  \<^verbatim>\<open>.get('on', False)\<close> and may be missing. \<open>query_ids\<close> holds the \<^verbatim>\<open>'id'\<close> of each
  entry of \<^verbatim>\<open>payload['devices']\<close>.
\<close>

record command =
  devices :: "string list"
  params :: "string \<rightharpoonup> bool"

record smarthome_request =
  requestId :: string
  intent :: string
  query_ids :: "string list"
  commands :: "command list"

record device_status =
  online :: bool
  on :: bool

record command_result =
  ids :: "string list"
  status :: string
  states :: device_status

text \<open>
  A SYNC device: id, type, traits, default names, name, nicknames, willReportState.
  A response is the request id with the payload.
\<close>

datatype sync_device =
  SyncDevice string string "string list" "string list" string "string list" bool

datatype smarthome_payload =
    SyncPayload string "sync_device list"
  | QueryPayload "string \<rightharpoonup> device_status"
  | ExecutePayload "command_result list"
  | ErrorPayload string

subsection \<open>QUERY\<close>

definition get_default :: "('k \<rightharpoonup> 'v) \<Rightarrow> 'k \<Rightarrow> 'v \<Rightarrow> 'v" where
  "get_default d k dflt = (case d k of None \<Rightarrow> dflt | Some v \<Rightarrow> v)"

primrec query_loop ::
  "server \<Rightarrow> string list \<Rightarrow> (string \<rightharpoonup> device_status) \<Rightarrow> (string \<rightharpoonup> device_status)" where
  "query_loop s [] resp_devices = resp_devices"
| "query_loop s (did # ds) resp_devices =
     (let on_state = get_default (device_states s) did False
      in query_loop s ds (resp_devices(did \<mapsto> \<lparr>online = True, on = on_state\<rparr>)))"

subsection \<open>EXECUTE\<close>

text \<open>
  The body of the inner loop, for one device of one command. \<open>w\<close> is what the call of
  \<^verbatim>\<open>trigger_jenkins\<close> it makes sees of the outside: the clock and the endpoint.
\<close>

definition execute_device ::
  "config \<Rightarrow> command \<Rightarrow> string \<Rightarrow> real \<times> http_outcome \<Rightarrow> server \<Rightarrow> command_result \<times> server" where
  "execute_device cfg cmd did w s =
     (let onoff = get_default (params cmd) ''on'' False;
          s1 = emit (WriteDeviceState did onoff) (s\<lparr>device_states := (device_states s)(did \<mapsto> onoff)\<rparr>);
          triggered = trigger_jenkins cfg (if onoff then ''apply'' else ''destroy'') (fst w) (snd w) s1;
          success = fst triggered
      in (\<lparr>ids = [did],
           status = (if success then ''SUCCESS'' else ''ERROR''),
           states = \<lparr>online = True, on = onoff\<rparr>\<rparr>,
          snd triggered))"

text \<open>
  The two loops. \<open>world k\<close> is what the \<open>k\<close>-th call of \<^verbatim>\<open>trigger_jenkins\<close> of the
  request sees; the loops carry the results so far, the number of calls made and the
  state.
\<close>

primrec execute_devices ::
  "config \<Rightarrow> (nat \<Rightarrow> real \<times> http_outcome) \<Rightarrow> command \<Rightarrow> string list
     \<Rightarrow> command_result list \<times> nat \<times> server \<Rightarrow> command_result list \<times> nat \<times> server" where
  "execute_devices cfg world cmd [] acc = acc"
| "execute_devices cfg world cmd (did # rest) acc =
     (case acc of (results, k, s) \<Rightarrow>
        (let done = execute_device cfg cmd did (world k) s
         in execute_devices cfg world cmd rest (results @ [fst done], Suc k, snd done)))"

primrec execute_commands ::
  "config \<Rightarrow> (nat \<Rightarrow> real \<times> http_outcome) \<Rightarrow> command list
     \<Rightarrow> command_result list \<times> nat \<times> server \<Rightarrow> command_result list \<times> nat \<times> server" where
  "execute_commands cfg world [] acc = acc"
| "execute_commands cfg world (cmd # cmds) acc =
     execute_commands cfg world cmds (execute_devices cfg world cmd (devices cmd) acc)"

subsection \<open>The handler\<close>

definition smarthome ::
  "config \<Rightarrow> (nat \<Rightarrow> real \<times> http_outcome) \<Rightarrow> smarthome_request \<Rightarrow> server
     \<Rightarrow> (string \<times> smarthome_payload) \<times> server" where
  "smarthome cfg world data s =
     (let req_id = requestId data in
      if intent data = ''action.devices.SYNC'' then
        ((req_id,
          SyncPayload ''user-1234''
            [SyncDevice ''jenkins_job'' ''action.devices.types.SWITCH''
               [''action.devices.traits.OnOff''] [''Terraform Job''] ''Jenkins Apply''
               [''terraform''] True]), s)
      else if intent data = ''action.devices.QUERY'' then
        ((req_id, QueryPayload (query_loop s (query_ids data) Map.empty)), s)
      else if intent data = ''action.devices.EXECUTE'' then
        (let finished = execute_commands cfg world (commands data) ([], 0, s)
         in ((req_id, ExecutePayload (fst finished)), snd (snd finished)))
      else ((req_id, ErrorPayload ''unsupported_intent''), s))"

subsection \<open>Observers of the trace\<close>

fun is_post :: "event \<Rightarrow> bool" where
  "is_post (RequestsPost url ps auth timeout) = True"
| "is_post e = False"

text \<open>The number of calls of \<^verbatim>\<open>requests.post\<close> made so far.\<close>

definition posts_made :: "server \<Rightarrow> nat" where
  "posts_made s = length (filter is_post (trace s))"

section \<open>Sequences of requests\<close>

text \<open>
  Flask routes \<^verbatim>\<open>/authorize\<close>, \<^verbatim>\<open>/token\<close> and \<^verbatim>\<open>/smarthome\<close> to the three handlers. A
  request carries, beside its data, what the handler will see of the outside while it
  runs. \<open>ExecuteIteration\<close> is one iteration of the inner loop of EXECUTE on its own, so
  that a sequence can also describe what happens between two iterations of one request.
  \<open>serve\<close> gives the state a request leaves behind, \<open>run\<close> the state after a sequence of
  them.
\<close>

datatype request =
    AuthorizeRequest http_method form form "nat \<Rightarrow> string"
  | TokenRequest form "nat \<Rightarrow> string"
  | SmarthomeRequest "nat \<Rightarrow> real \<times> http_outcome" smarthome_request
  | ExecuteIteration command string "real \<times> http_outcome"

fun serve :: "config \<Rightarrow> request \<Rightarrow> server \<Rightarrow> server" where
  "serve cfg (AuthorizeRequest meth args frm rnd) s = snd (authorize cfg meth args frm rnd s)"
| "serve cfg (TokenRequest frm rnd) s = snd (token cfg frm rnd s)"
| "serve cfg (SmarthomeRequest world data) s = snd (smarthome cfg world data s)"
| "serve cfg (ExecuteIteration cmd did w) s = snd (execute_device cfg cmd did w s)"

definition run :: "config \<Rightarrow> request list \<Rightarrow> server \<Rightarrow> server" where
  "run cfg reqs s = foldl (\<lambda>s' r. serve cfg r s') s reqs"

text \<open>A \<^verbatim>\<open>/token\<close> request whose grant type is \<^verbatim>\<open>authorization_code\<close>.\<close>

fun is_code_exchange :: "request \<Rightarrow> bool" where
  "is_code_exchange (TokenRequest frm rnd) = (frm ''grant_type'' = Some ''authorization_code'')"
| "is_code_exchange r = False"

text \<open>The code a request puts into \<^verbatim>\<open>auth_codes\<close>, if it is a login submission.\<close>

fun issued_code :: "request \<Rightarrow> string option" where
  "issued_code (AuthorizeRequest meth args frm rnd) = (if meth = GET then None else Some (rnd 8))"
| "issued_code r = None"

text \<open>The device ids an EXECUTE request, or a single iteration, writes to.\<close>

fun targeted :: "request \<Rightarrow> string list" where
  "targeted (SmarthomeRequest world data) =
     (if intent data = ''action.devices.EXECUTE'' then concat (map devices (commands data)) else [])"
| "targeted (ExecuteIteration cmd did w) = [did]"
| "targeted r = []"

text \<open>
  The iterations an EXECUTE request runs, in order: one for each device of each command,
  the \<open>k\<close>-th with what \<open>world k\<close> shows it.
\<close>

definition targets_of :: "command list \<Rightarrow> (command \<times> string) list" where
  "targets_of cmds = concat (map (\<lambda>cmd. map (Pair cmd) (devices cmd)) cmds)"

fun iterations :: "(nat \<Rightarrow> real \<times> http_outcome) \<Rightarrow> nat \<Rightarrow> (command \<times> string) list \<Rightarrow> request list" where
  "iterations world k [] = []"
| "iterations world k ((cmd, did) # rest) =
     ExecuteIteration cmd did (world k) # iterations world (Suc k) rest"

section \<open>A configuration and requests for the examples\<close>

text \<open>
  One registered client, and the strings the random generator returns in the examples:
  11, 22 and 32 characters of the URL-safe alphabet, as \<^verbatim>\<open>token_urlsafe\<close> gives for 8,
  16 and 24 bytes.
\<close>

definition demo_config :: config where
  "demo_config =
     \<lparr>VALID_CLIENTS = [''google-client'' \<mapsto> ''s3cret''],
      JENKINS_WEBHOOK_URL = ''https://jenkins.example/generic-webhook-trigger/invoke'',
      JENKINS_USER = ''admin'',
      JENKINS_API_TOKEN = ''api-token'',
      JENKINS_TOKEN = ''job-token''\<rparr>"

definition draw_a :: "nat \<Rightarrow> string" where
  "draw_a n = (if n = 8 then ''AAAAAAAAAAA''
               else if n = 16 then ''AAAAAAAAAAAAAAAAAAAAAA''
               else ''AAAAAAAAAAAAAAAAAAAAAAAAAAAAAAAA'')"

definition draw_b :: "nat \<Rightarrow> string" where
  "draw_b n = (if n = 8 then ''BBBBBBBBBBA''
               else if n = 16 then ''BBBBBBBBBBBBBBBBBBBBBA''
               else ''BBBBBBBBBBBBBBBBBBBBBBBBBBBBBBBB'')"

definition draw_c :: "nat \<Rightarrow> string" where
  "draw_c n = (if n = 8 then ''CCCCCCCCCCA''
               else if n = 16 then ''CCCCCCCCCCCCCCCCCCCCCA''
               else ''CCCCCCCCCCCCCCCCCCCCCCCCCCCCCCCC'')"

definition login_form :: form where
  "login_form =
     [''client_id'' \<mapsto> ''google-client'',
      ''redirect_uri'' \<mapsto> ''https://oauth-redirect.example/r/project'',
      ''state'' \<mapsto> ''xyz'',
      ''username'' \<mapsto> ''user'',
      ''password'' \<mapsto> ''pass'']"

definition exchange_form :: form where
  "exchange_form =
     [''grant_type'' \<mapsto> ''authorization_code'',
      ''code'' \<mapsto> ''AAAAAAAAAAA'',
      ''redirect_uri'' \<mapsto> ''https://oauth-redirect.example/r/project'',
      ''client_id'' \<mapsto> ''google-client'',
      ''client_secret'' \<mapsto> ''s3cret'']"

definition refresh_form :: form where
  "refresh_form =
     [''grant_type'' \<mapsto> ''refresh_token'',
      ''refresh_token'' \<mapsto> ''AAAAAAAAAAAAAAAAAAAAAAAAAAAAAAAA'',
      ''client_id'' \<mapsto> ''google-client'',
      ''client_secret'' \<mapsto> ''s3cret'']"

text \<open>The state after a start with a token file that holds one refresh token.\<close>

definition linked :: server where
  "linked =
     startup (Some (Map.empty, [''AAAAAAAAAAAAAAAAAAAAAAAAAAAAAAAA'' \<mapsto> Some ''google-client'']))"

text \<open>Smart-home requests: a command that switches the job on, and a QUERY for two ids.\<close>

definition switch_on :: command where
  "switch_on = \<lparr>devices = [''jenkins_job''], params = [''on'' \<mapsto> True]\<rparr>"

definition switch_unset :: command where
  "switch_unset = \<lparr>devices = [''jenkins_job''], params = Map.empty\<rparr>"

definition query_request :: smarthome_request where
  "query_request =
     \<lparr>requestId = ''req-1'', intent = ''action.devices.QUERY'',
      query_ids = [''jenkins_job'', ''lamp''], commands = []\<rparr>"

text \<open>
  An EXECUTE request with two commands: the first switches the job on, the second
  names two devices and carries no \<^verbatim>\<open>on\<close> parameter.
\<close>

definition two_unset :: command where
  "two_unset = \<lparr>devices = [''jenkins_job'', ''lamp''], params = Map.empty\<rparr>"

definition execute_request :: smarthome_request where
  "execute_request =
     \<lparr>requestId = ''req-2'', intent = ''action.devices.EXECUTE'',
      query_ids = [], commands = [switch_on, two_unset]\<rparr>"

text \<open>
  A clock that reads 100, 103 and 115 at the first three calls of a request, and an
  endpoint that answers 200 each time.
\<close>

definition demo_world :: "nat \<Rightarrow> real \<times> http_outcome" where
  "demo_world k = (if k = 0 then (100, Response 200)
                   else if k = 1 then (103, Response 200)
                   else (115, Response 200))"

text \<open>
  The state of a fresh server after one iteration at time 100 that switched the job on,
  and two requests that may follow it: an iteration for another device at time 103,
  and a refresh.
\<close>

definition after_first :: server where
  "after_first =
     snd (execute_device demo_config switch_on ''jenkins_job'' (100, Response 200) (startup None))"

definition in_between :: "request list" where
  "in_between =
     [ExecuteIteration two_unset ''lamp'' (103, Response 200), TokenRequest refresh_form draw_a]"

text \<open>
  A start with a token file that also holds an access token of another client, the very
  string \<open>draw_a\<close> returns for 16 bytes.
\<close>

definition crowded :: server where
  "crowded =
     startup (Some ([''AAAAAAAAAAAAAAAAAAAAAA'' \<mapsto> Some ''other-client''],
                    [''AAAAAAAAAAAAAAAAAAAAAAAAAAAAAAAA'' \<mapsto> Some ''google-client'']))"

text \<open>
  Requests of a client the registry does not know: its login submission, and a code
  exchange that sends no \<^verbatim>\<open>client_secret\<close> field.
\<close>

definition ghost_login :: form where
  "ghost_login =
     [''client_id'' \<mapsto> ''ghost'',
      ''redirect_uri'' \<mapsto> ''https://ghost.example/cb'',
      ''state'' \<mapsto> ''s'']"

definition ghost_exchange :: form where
  "ghost_exchange =
     [''grant_type'' \<mapsto> ''authorization_code'',
      ''code'' \<mapsto> ''AAAAAAAAAAA'',
      ''redirect_uri'' \<mapsto> ''https://ghost.example/cb'',
      ''client_id'' \<mapsto> ''ghost'']"

text \<open>
  A fresh server after the login submission of the registered client, and after the
  exchange of the code it was given; requests that may follow: a refresh and another
  login submission, which draws another code; and the exchange with a redirect uri that
  is not the stored one.
\<close>

definition issued :: server where
  "issued = snd (authorize demo_config POST Map.empty login_form draw_a (startup None))"

definition redeemed :: server where
  "redeemed = snd (token demo_config exchange_form draw_b issued)"

definition traffic :: "request list" where
  "traffic =
     [TokenRequest refresh_form draw_c, AuthorizeRequest POST Map.empty login_form draw_b]"

definition wrong_uri_form :: form where
  "wrong_uri_form = exchange_form(''redirect_uri'' \<mapsto> ''https://elsewhere.example/cb'')"

section \<open>What each handler leaves alone\<close>

lemma run_Nil: "run cfg [] s = s"
  by (simp add: run_def)

lemma run_Cons: "run cfg (r # rs) s = run cfg rs (serve cfg r s)"
  by (simp add: run_def)

lemma run_append: "run cfg (xs @ ys) s = run cfg ys (run cfg xs s)"
  by (simp add: run_def)

lemma emit_simps:
  "access_tokens (emit e s) = access_tokens s"
  "refresh_tokens (emit e s) = refresh_tokens s"
  "auth_codes (emit e s) = auth_codes s"
  "device_states (emit e s) = device_states s"
  "last_trigger_time (emit e s) = last_trigger_time s"
  "tokens_file (emit e s) = tokens_file s"
  "trace (emit e s) = trace s @ [e]"
  by (simp_all add: emit_def)

lemma trigger_jenkins_frame:
  "access_tokens (snd (trigger_jenkins cfg a t out s)) = access_tokens s"
  "refresh_tokens (snd (trigger_jenkins cfg a t out s)) = refresh_tokens s"
  "auth_codes (snd (trigger_jenkins cfg a t out s)) = auth_codes s"
  "device_states (snd (trigger_jenkins cfg a t out s)) = device_states s"
  "tokens_file (snd (trigger_jenkins cfg a t out s)) = tokens_file s"
  by (simp_all add: trigger_jenkins_def with_execution_lock_def Let_def emit_simps
        split: http_outcome.splits)

lemma execute_device_frame:
  "access_tokens (snd (execute_device cfg cmd did w s)) = access_tokens s"
  "refresh_tokens (snd (execute_device cfg cmd did w s)) = refresh_tokens s"
  "auth_codes (snd (execute_device cfg cmd did w s)) = auth_codes s"
  "tokens_file (snd (execute_device cfg cmd did w s)) = tokens_file s"
  by (simp_all add: execute_device_def Let_def trigger_jenkins_frame emit_simps)

lemma execute_devices_frame:
  "access_tokens (snd (snd (execute_devices cfg world cmd ds acc))) = access_tokens (snd (snd acc))
 \<and> refresh_tokens (snd (snd (execute_devices cfg world cmd ds acc))) = refresh_tokens (snd (snd acc))
 \<and> auth_codes (snd (snd (execute_devices cfg world cmd ds acc))) = auth_codes (snd (snd acc))
 \<and> tokens_file (snd (snd (execute_devices cfg world cmd ds acc))) = tokens_file (snd (snd acc))"
  by (induction ds arbitrary: acc) (simp_all add: Let_def execute_device_frame split: prod.splits)

lemma execute_commands_frame:
  "access_tokens (snd (snd (execute_commands cfg world cmds acc))) = access_tokens (snd (snd acc))
 \<and> refresh_tokens (snd (snd (execute_commands cfg world cmds acc))) = refresh_tokens (snd (snd acc))
 \<and> auth_codes (snd (snd (execute_commands cfg world cmds acc))) = auth_codes (snd (snd acc))
 \<and> tokens_file (snd (snd (execute_commands cfg world cmds acc))) = tokens_file (snd (snd acc))"
  by (induction cmds arbitrary: acc) (simp_all add: execute_devices_frame)

lemma smarthome_frame:
  "access_tokens (snd (smarthome cfg world data s)) = access_tokens s"
  "refresh_tokens (snd (smarthome cfg world data s)) = refresh_tokens s"
  "auth_codes (snd (smarthome cfg world data s)) = auth_codes s"
  "tokens_file (snd (smarthome cfg world data s)) = tokens_file s"
  using execute_commands_frame [of cfg world "commands data" "([], 0, s)"]
  by (simp_all add: smarthome_def Let_def)

lemma authorize_frame:
  "access_tokens (snd (authorize cfg meth args frm rnd s)) = access_tokens s"
  "refresh_tokens (snd (authorize cfg meth args frm rnd s)) = refresh_tokens s"
  "device_states (snd (authorize cfg meth args frm rnd s)) = device_states s"
  "last_trigger_time (snd (authorize cfg meth args frm rnd s)) = last_trigger_time s"
  "trace (snd (authorize cfg meth args frm rnd s)) = trace s"
  by (simp_all add: authorize_def Let_def split: option.splits)

lemma token_frame:
  "device_states (snd (token cfg frm rnd s)) = device_states s"
  "last_trigger_time (snd (token cfg frm rnd s)) = last_trigger_time s"
  "trace (snd (token cfg frm rnd s)) = trace s"
  by (simp_all add: token_def Let_def save_tokens_to_file_def split: option.splits)

lemma token_refresh_tokens_unchanged:
  "frm ''grant_type'' \<noteq> Some ''authorization_code'' \<Longrightarrow>
     refresh_tokens (snd (token cfg frm rnd s)) = refresh_tokens s"
  by (simp add: token_def Let_def save_tokens_to_file_def)

lemma serve_refresh_tokens:
  "\<not> is_code_exchange r \<Longrightarrow> refresh_tokens (serve cfg r s) = refresh_tokens s"
  by (cases r)
     (simp_all add: token_refresh_tokens_unchanged authorize_frame smarthome_frame
        execute_device_frame)

lemma run_refresh_tokens:
  "\<forall>r \<in> set reqs. \<not> is_code_exchange r \<Longrightarrow> refresh_tokens (run cfg reqs s) = refresh_tokens s"
  by (induction reqs arbitrary: s) (simp_all add: run_Nil run_Cons serve_refresh_tokens)

section \<open>Refreshing\<close>

lemma token_refresh_grant:
  assumes "frm ''grant_type'' = Some ''refresh_token''"
    and "frm ''refresh_token'' = Some rt" and "refresh_tokens s rt = Some (Some c)"
    and "frm ''client_id'' = Some c" and "VALID_CLIENTS cfg c = Some sec"
    and "frm ''client_secret'' = Some sec"
  shows "token cfg frm rnd s =
           ((GrantBody (rnd 16) ''Bearer'' 3600 None, 200),
            save_tokens_to_file (s\<lparr>access_tokens := (access_tokens s)(rnd 16 \<mapsto> Some c)\<rparr>))"
  using assms by (simp add: token_def Let_def dict_get_def store_get_def)

lemma linked_refresh:
  "refresh_tokens linked ''AAAAAAAAAAAAAAAAAAAAAAAAAAAAAAAA'' = Some (Some ''google-client'')"
  by (simp add: linked_def startup_def load_tokens_from_file_def)

text \<open>
  Claim C5. A \<^verbatim>\<open>/token\<close> request with grant type \<^verbatim>\<open>refresh_token\<close> presents the refresh
  token \<open>rt\<close>, the client id \<open>c\<close> and the secret registered for \<open>c\<close>, and \<open>rt\<close> is bound to
  \<open>c\<close> in the store. Then the response is 200 with the body
  \<^verbatim>\<open>{access_token, token_type: "Bearer", expires_in: 3600}\<close> and no refresh token in it,
  where the access token is the string the generator returned; that token is stored
  against \<open>c\<close>; the refresh-token store is the one before the call; both stores are
  written to the token file. The refresh token stays usable: after any further requests,
  however many, none of which is a code exchange (further refreshes among them), the
  refresh-token store is still the same and the same refresh request is granted again.
\<close>

theorem C5_refresh_keeps_refresh_token:
  assumes grant: "frm ''grant_type'' = Some ''refresh_token''"
    and presented: "frm ''refresh_token'' = Some rt"
    and bound: "refresh_tokens s rt = Some (Some c)"
    and client: "frm ''client_id'' = Some c"
    and registered: "VALID_CLIENTS cfg c = Some sec"
    and secret: "frm ''client_secret'' = Some sec"
  shows "fst (token cfg frm rnd s) = (GrantBody (rnd 16) ''Bearer'' 3600 None, 200)
       \<and> access_tokens (snd (token cfg frm rnd s)) = (access_tokens s)(rnd 16 \<mapsto> Some c)
       \<and> refresh_tokens (snd (token cfg frm rnd s)) = refresh_tokens s
       \<and> tokens_file (snd (token cfg frm rnd s))
           = Some ((access_tokens s)(rnd 16 \<mapsto> Some c), refresh_tokens s)
       \<and> (\<forall>later rnd'. (\<forall>r \<in> set later. \<not> is_code_exchange r) \<longrightarrow>
             refresh_tokens (run cfg later (snd (token cfg frm rnd s))) = refresh_tokens s
           \<and> fst (token cfg frm rnd' (run cfg later (snd (token cfg frm rnd s))))
               = (GrantBody (rnd' 16) ''Bearer'' 3600 None, 200))"
proof -
  let ?s' = "snd (token cfg frm rnd s)"
  have step: "token cfg frm rnd s =
      ((GrantBody (rnd 16) ''Bearer'' 3600 None, 200),
       save_tokens_to_file (s\<lparr>access_tokens := (access_tokens s)(rnd 16 \<mapsto> Some c)\<rparr>))"
    using assms by (rule token_refresh_grant)
  have kept: "refresh_tokens ?s' = refresh_tokens s"
    by (simp add: step save_tokens_to_file_def)
  have again: "refresh_tokens (run cfg later ?s') = refresh_tokens s
      \<and> fst (token cfg frm rnd' (run cfg later ?s')) = (GrantBody (rnd' 16) ''Bearer'' 3600 None, 200)"
    if quiet: "\<forall>r \<in> set later. \<not> is_code_exchange r" for later rnd'
  proof -
    have same: "refresh_tokens (run cfg later ?s') = refresh_tokens s"
      using run_refresh_tokens [OF quiet] kept by simp
    then have "refresh_tokens (run cfg later ?s') rt = Some (Some c)"
      using bound by simp
    from token_refresh_grant [OF grant presented this client registered secret]
    show ?thesis using same by simp
  qed
  show ?thesis
    using again by (simp add: step save_tokens_to_file_def)
qed

text \<open>
  The theorem at a server started with one refresh token in its file: the refresh is
  granted, the store is unchanged, and after two more refreshes a fourth is granted.
\<close>

theorem C5_refresh_keeps_refresh_token_witness:
  "refresh_form ''grant_type'' = Some ''refresh_token''
   \<and> refresh_form ''refresh_token'' = Some ''AAAAAAAAAAAAAAAAAAAAAAAAAAAAAAAA''
   \<and> refresh_tokens linked ''AAAAAAAAAAAAAAAAAAAAAAAAAAAAAAAA'' = Some (Some ''google-client'')
   \<and> refresh_form ''client_id'' = Some ''google-client''
   \<and> VALID_CLIENTS demo_config ''google-client'' = Some ''s3cret''
   \<and> refresh_form ''client_secret'' = Some ''s3cret''
   \<and> fst (token demo_config refresh_form draw_a linked)
         = (GrantBody ''AAAAAAAAAAAAAAAAAAAAAA'' ''Bearer'' 3600 None, 200)
   \<and> access_tokens (snd (token demo_config refresh_form draw_a linked)) ''AAAAAAAAAAAAAAAAAAAAAA''
         = Some (Some ''google-client'')
   \<and> refresh_tokens (snd (token demo_config refresh_form draw_a linked)) = refresh_tokens linked
   \<and> fst (token demo_config refresh_form draw_c
             (run demo_config [TokenRequest refresh_form draw_b, TokenRequest refresh_form draw_b]
                (snd (token demo_config refresh_form draw_a linked))))
         = (GrantBody ''CCCCCCCCCCCCCCCCCCCCCA'' ''Bearer'' 3600 None, 200)"
proof -
  have h1: "refresh_form ''grant_type'' = Some ''refresh_token''"
    and h2: "refresh_form ''refresh_token'' = Some ''AAAAAAAAAAAAAAAAAAAAAAAAAAAAAAAA''"
    and h4: "refresh_form ''client_id'' = Some ''google-client''"
    and h6: "refresh_form ''client_secret'' = Some ''s3cret''"
    by (simp_all add: refresh_form_def)
  have h5: "VALID_CLIENTS demo_config ''google-client'' = Some ''s3cret''"
    by (simp add: demo_config_def)
  have quiet: "\<forall>r \<in> set [TokenRequest refresh_form draw_b, TokenRequest refresh_form draw_b].
                 \<not> is_code_exchange r"
    by (simp add: refresh_form_def)
  note main = C5_refresh_keeps_refresh_token [OF h1 h2 linked_refresh h4 h5 h6, of draw_a]
  from main have later: "fst (token demo_config refresh_form draw_c
             (run demo_config [TokenRequest refresh_form draw_b, TokenRequest refresh_form draw_b]
                (snd (token demo_config refresh_form draw_a linked))))
         = (GrantBody (draw_c 16) ''Bearer'' 3600 None, 200)"
    using quiet by blast
  show ?thesis
    using main later h1 h2 h4 h5 h6 linked_refresh by (simp add: draw_a_def draw_c_def)
qed

section \<open>QUERY\<close>

lemma query_loop_lookup:
  "query_loop s ds resp did =
     (if did \<in> set ds then Some \<lparr>online = True, on = get_default (device_states s) did False\<rparr>
      else resp did)"
  by (induction ds arbitrary: resp) (simp_all add: Let_def)

lemma execute_device_device_states:
  "device_states (snd (execute_device cfg cmd did w s))
     = (device_states s)(did \<mapsto> get_default (params cmd) ''on'' False)"
  by (simp add: execute_device_def Let_def trigger_jenkins_frame emit_simps)

lemma execute_devices_untargeted:
  "did \<notin> set ds \<Longrightarrow>
     device_states (snd (snd (execute_devices cfg world cmd ds acc))) did
       = device_states (snd (snd acc)) did"
  by (induction ds arbitrary: acc)
     (simp_all add: Let_def execute_device_device_states split: prod.splits)

lemma execute_commands_untargeted:
  "did \<notin> set (concat (map devices cmds)) \<Longrightarrow>
     device_states (snd (snd (execute_commands cfg world cmds acc))) did
       = device_states (snd (snd acc)) did"
  by (induction cmds arbitrary: acc) (simp_all add: execute_devices_untargeted)

lemma smarthome_untargeted:
  "did \<notin> set (targeted (SmarthomeRequest world data)) \<Longrightarrow>
     device_states (snd (smarthome cfg world data s)) did = device_states s did"
  using execute_commands_untargeted [of did "commands data" cfg world "([], 0, s)"]
  by (simp add: smarthome_def Let_def)

lemma serve_untargeted:
  assumes "did \<notin> set (targeted r)"
  shows "device_states (serve cfg r s) did = device_states s did"
proof (cases r)
  case (SmarthomeRequest world data)
  then show ?thesis using assms smarthome_untargeted [of did world data cfg s] by simp
next
  case (ExecuteIteration cmd d w)
  then show ?thesis using assms by (simp add: execute_device_device_states)
qed (simp_all add: authorize_frame token_frame)

lemma run_untargeted:
  "\<forall>r \<in> set reqs. did \<notin> set (targeted r) \<Longrightarrow>
     device_states (run cfg reqs s) did = device_states s did"
  by (induction reqs arbitrary: s) (simp_all add: run_Nil run_Cons serve_untargeted)

lemma startup_default: "get_default (device_states (startup file)) did False = False"
  by (simp add: startup_def get_default_def)

text \<open>
  Claim C7. For a QUERY request the response carries the request id and a dictionary
  that maps every requested device id to \<^verbatim>\<open>{online: true, on: s}\<close>, where \<open>s\<close> is the
  entry of \<^verbatim>\<open>device_states\<close> for the id and false when there is none, and that has no
  other keys; the state returned is the state given, so QUERY writes nothing. An id
  that no EXECUTE has written to since the start of the server is reported off: whatever
  requests ran since \<open>startup\<close>, if none of them targeted the id, its entry is missing or
  is the initial \<open>False\<close> of \<^verbatim>\<open>jenkins_job\<close>.
\<close>

theorem C7_query_reports_device_state:
  assumes query: "intent data = ''action.devices.QUERY''"
  shows "smarthome cfg world data s
           = ((requestId data, QueryPayload (query_loop s (query_ids data) Map.empty)), s)
       \<and> (\<forall>did \<in> set (query_ids data).
             query_loop s (query_ids data) Map.empty did
               = Some \<lparr>online = True,
                       on = (case device_states s did of None \<Rightarrow> False | Some b \<Rightarrow> b)\<rparr>)
       \<and> (\<forall>did. did \<notin> set (query_ids data) \<longrightarrow>
             query_loop s (query_ids data) Map.empty did = None)
       \<and> (\<forall>did \<in> set (query_ids data). \<forall>file reqs.
             s = run cfg reqs (startup file) \<and> (\<forall>r \<in> set reqs. did \<notin> set (targeted r)) \<longrightarrow>
             query_loop s (query_ids data) Map.empty did = Some \<lparr>online = True, on = False\<rparr>)"
proof -
  have resp: "smarthome cfg world data s
           = ((requestId data, QueryPayload (query_loop s (query_ids data) Map.empty)), s)"
    using query by (simp add: smarthome_def Let_def)
  have never: "get_default (device_states s) did False = False"
    if "s = run cfg reqs (startup tf)" and "\<forall>r \<in> set reqs. did \<notin> set (targeted r)"
    for did tf reqs
    using that run_untargeted [of reqs did cfg "startup tf"] startup_default [of tf did]
    by (simp add: get_default_def)
  show ?thesis
    using resp never by (auto simp add: query_loop_lookup get_default_def)
qed


text \<open>
  The theorem after one EXECUTE iteration that switched \<^verbatim>\<open>jenkins_job\<close> on: the job is
  reported on, the id \<^verbatim>\<open>lamp\<close>, never written, is reported off, and an id that was not
  asked for is not in the response.
\<close>

theorem C7_query_reports_device_state_witness:
  "intent query_request = ''action.devices.QUERY''
   \<and> smarthome demo_config (\<lambda>k. (0, RequestException)) query_request
         (run demo_config [ExecuteIteration switch_on ''jenkins_job'' (100, Response 200)] (startup None))
       = ((''req-1'',
           QueryPayload (query_loop
             (run demo_config [ExecuteIteration switch_on ''jenkins_job'' (100, Response 200)] (startup None))
             [''jenkins_job'', ''lamp''] Map.empty)),
          run demo_config [ExecuteIteration switch_on ''jenkins_job'' (100, Response 200)] (startup None))
   \<and> query_loop
         (run demo_config [ExecuteIteration switch_on ''jenkins_job'' (100, Response 200)] (startup None))
         [''jenkins_job'', ''lamp''] Map.empty ''jenkins_job''
       = Some \<lparr>online = True, on = True\<rparr>
   \<and> query_loop
         (run demo_config [ExecuteIteration switch_on ''jenkins_job'' (100, Response 200)] (startup None))
         [''jenkins_job'', ''lamp''] Map.empty ''lamp''
       = Some \<lparr>online = True, on = False\<rparr>
   \<and> query_loop
         (run demo_config [ExecuteIteration switch_on ''jenkins_job'' (100, Response 200)] (startup None))
         [''jenkins_job'', ''lamp''] Map.empty ''door''
       = None"
proof -
  let ?reqs = "[ExecuteIteration switch_on ''jenkins_job'' (100, Response 200)]"
  let ?s = "run demo_config ?reqs (startup None)"
  have q: "intent query_request = ''action.devices.QUERY''"
    by (simp add: query_request_def)
  have ids: "query_ids query_request = [''jenkins_job'', ''lamp'']"
    and rid: "requestId query_request = ''req-1''"
    by (simp_all add: query_request_def)
  have dev: "device_states ?s ''jenkins_job'' = Some True"
    by (simp add: run_Cons run_Nil execute_device_device_states switch_on_def get_default_def)
  have quiet: "\<forall>r \<in> set ?reqs. ''lamp'' \<notin> set (targeted r)"
    by simp
  note main = C7_query_reports_device_state [OF q, of demo_config "\<lambda>k. (0, RequestException)" ?s]
  from main have lamp: "query_loop ?s (query_ids query_request) Map.empty ''lamp''
      = Some \<lparr>online = True, on = False\<rparr>"
    using quiet ids by (metis list.set_intros(1,2))
  from main have job: "query_loop ?s (query_ids query_request) Map.empty ''jenkins_job''
      = Some \<lparr>online = True, on = (case device_states ?s ''jenkins_job'' of None \<Rightarrow> False | Some b \<Rightarrow> b)\<rparr>"
    using ids by simp
  from main have door: "query_loop ?s (query_ids query_request) Map.empty ''door'' = None"
    using ids by simp
  show ?thesis
    using main q lamp job door dev by (simp add: ids rid)
qed

section \<open>The cooldown gate and the EXECUTE loops\<close>

lemma trigger_jenkins_suppressed:
  assumes "t - last_trigger_time s < MIN_INTERVAL"
  shows "trigger_jenkins cfg a t out s = (False, s\<lparr>trace := trace s @ [LockAcquire, LockRelease]\<rparr>)"
  using assms by (simp add: trigger_jenkins_def with_execution_lock_def Let_def emit_def)

lemma trigger_jenkins_forwarded:
  assumes "\<not> t - last_trigger_time s < MIN_INTERVAL"
  shows "trigger_jenkins cfg a t out s =
           (out = Response 200,
            s\<lparr>last_trigger_time := t,
              trace := trace s @
                [LockAcquire, WriteLastTrigger t,
                 RequestsPost (JENKINS_WEBHOOK_URL cfg)
                   [(''token'', JENKINS_TOKEN cfg), (''action'', a), (''autoApprove'', ''true'')]
                   (JENKINS_USER cfg, JENKINS_API_TOKEN cfg) 5,
                 LockRelease]\<rparr>)"
  using assms
  by (cases out) (simp_all add: trigger_jenkins_def with_execution_lock_def Let_def emit_def)

lemma execute_device_suppressed:
  assumes "fst w - last_trigger_time s < MIN_INTERVAL"
  shows "execute_device cfg cmd did w s =
           (\<lparr>ids = [did], status = ''ERROR'',
             states = \<lparr>online = True, on = get_default (params cmd) ''on'' False\<rparr>\<rparr>,
            s\<lparr>device_states := (device_states s)(did \<mapsto> get_default (params cmd) ''on'' False),
              trace := trace s @
                [WriteDeviceState did (get_default (params cmd) ''on'' False),
                 LockAcquire, LockRelease]\<rparr>)"
  using assms
  by (simp add: execute_device_def Let_def trigger_jenkins_suppressed emit_def)

lemma execute_device_forwarded:
  assumes "\<not> fst w - last_trigger_time s < MIN_INTERVAL"
  shows "execute_device cfg cmd did w s =
           (\<lparr>ids = [did], status = (if snd w = Response 200 then ''SUCCESS'' else ''ERROR''),
             states = \<lparr>online = True, on = get_default (params cmd) ''on'' False\<rparr>\<rparr>,
            s\<lparr>device_states := (device_states s)(did \<mapsto> get_default (params cmd) ''on'' False),
              last_trigger_time := fst w,
              trace := trace s @
                [WriteDeviceState did (get_default (params cmd) ''on'' False),
                 LockAcquire, WriteLastTrigger (fst w),
                 RequestsPost (JENKINS_WEBHOOK_URL cfg)
                   [(''token'', JENKINS_TOKEN cfg),
                    (''action'', if get_default (params cmd) ''on'' False then ''apply'' else ''destroy''),
                    (''autoApprove'', ''true'')]
                   (JENKINS_USER cfg, JENKINS_API_TOKEN cfg) 5,
                 LockRelease]\<rparr>)"
  using assms
  by (simp add: execute_device_def Let_def trigger_jenkins_forwarded emit_def)

lemma execute_device_posts:
  "posts_made (snd (execute_device cfg cmd did w s))
     = (if fst w - last_trigger_time s < MIN_INTERVAL then posts_made s else Suc (posts_made s))"
  by (simp add: execute_device_suppressed execute_device_forwarded posts_made_def)

lemma execute_device_last:
  "last_trigger_time (snd (execute_device cfg cmd did w s))
     = (if fst w - last_trigger_time s < MIN_INTERVAL then last_trigger_time s else fst w)"
  by (simp add: execute_device_suppressed execute_device_forwarded)

lemma execute_device_last_mono:
  "last_trigger_time s \<le> last_trigger_time (snd (execute_device cfg cmd did w s))"
  by (simp add: execute_device_last MIN_INTERVAL_def)

lemma iterations_append:
  "iterations world k (xs @ ys) = iterations world k xs @ iterations world (k + length xs) ys"
  by (induction xs arbitrary: k) auto

lemma execute_devices_run:
  "snd (execute_devices cfg world cmd ds (results, k, s))
     = (k + length ds, run cfg (iterations world k (map (Pair cmd) ds)) s)"
  by (induction ds arbitrary: results k s) (simp_all add: run_Nil run_Cons Let_def)

lemma execute_commands_run:
  "snd (execute_commands cfg world cmds (results, k, s))
     = (k + length (targets_of cmds), run cfg (iterations world k (targets_of cmds)) s)"
proof (induction cmds arbitrary: results k s)
  case Nil
  then show ?case by (simp add: targets_of_def run_Nil)
next
  case (Cons cmd cmds)
  obtain r' where step: "execute_devices cfg world cmd (devices cmd) (results, k, s)
      = (r', k + length (devices cmd), run cfg (iterations world k (map (Pair cmd) (devices cmd))) s)"
    using execute_devices_run [of cfg world cmd "devices cmd" results k s]
    by (cases "execute_devices cfg world cmd (devices cmd) (results, k, s)") simp
  have split: "targets_of (cmd # cmds) = map (Pair cmd) (devices cmd) @ targets_of cmds"
    by (simp add: targets_of_def)
  show ?case
    by (simp add: step Cons.IH split iterations_append run_append add.assoc)
qed

lemma smarthome_execute_run:
  assumes "intent data = ''action.devices.EXECUTE''"
  shows "snd (smarthome cfg world data s) = run cfg (iterations world 0 (targets_of (commands data))) s"
  using assms execute_commands_run [of cfg world "commands data" "[]" 0 s]
  by (simp add: smarthome_def Let_def)

lemma execute_device_result:
  "ids (fst (execute_device cfg cmd did w s)) = [did]"
  "states (fst (execute_device cfg cmd did w s)) = \<lparr>online = True, on = get_default (params cmd) ''on'' False\<rparr>"
  by (simp_all add: execute_device_def Let_def)

lemma execute_devices_results:
  "map ids (fst (execute_devices cfg world cmd ds (results, k, s)))
     = map ids results @ map (\<lambda>d. [d]) ds
 \<and> map states (fst (execute_devices cfg world cmd ds (results, k, s)))
     = map states results
       @ map (\<lambda>d. \<lparr>online = True, on = get_default (params cmd) ''on'' False\<rparr>) ds"
  by (induction ds arbitrary: results k s) (simp_all add: Let_def execute_device_result)

lemma execute_commands_results:
  "map ids (fst (execute_commands cfg world cmds (results, k, s)))
     = map ids results @ map (\<lambda>(c, d). [d]) (targets_of cmds)
 \<and> map states (fst (execute_commands cfg world cmds (results, k, s)))
     = map states results
       @ map (\<lambda>(c, d). \<lparr>online = True, on = get_default (params c) ''on'' False\<rparr>) (targets_of cmds)"
proof (induction cmds arbitrary: results k s)
  case Nil
  then show ?case by (simp add: targets_of_def)
next
  case (Cons cmd cmds)
  obtain r' k' s' where step: "execute_devices cfg world cmd (devices cmd) (results, k, s) = (r', k', s')"
    by (cases "execute_devices cfg world cmd (devices cmd) (results, k, s)") auto
  have r': "map ids r' = map ids results @ map (\<lambda>d. [d]) (devices cmd)"
    "map states r' = map states results
       @ map (\<lambda>d. \<lparr>online = True, on = get_default (params cmd) ''on'' False\<rparr>) (devices cmd)"
    using execute_devices_results [of cfg world cmd "devices cmd" results k s] step by simp_all
  have split: "targets_of (cmd # cmds) = map (Pair cmd) (devices cmd) @ targets_of cmds"
    by (simp add: targets_of_def)
  show ?case
    by (simp add: step Cons.IH r' split comp_def)
qed

section \<open>The lock and the outbound call\<close>

text \<open>
  Claim C8, as the code has it. When the cooldown check of \<^verbatim>\<open>trigger_jenkins\<close> passes,
  the effects of the call are, in this order: the lock is taken,
  \<^verbatim>\<open>last_trigger_time\<close> is set to the time read, \<^verbatim>\<open>requests.post\<close> is called with
  the webhook url, the parameters \<^verbatim>\<open>token\<close>, \<^verbatim>\<open>action\<close> and \<^verbatim>\<open>autoApprove\<close>, the
  credentials and a timeout of 5 seconds, and the lock is released. So the time stamp
  is updated before the outbound call, and the lock is held across the call and released
  only after it; the result is true exactly when the endpoint answered 200.
\<close>

theorem C8_lock_held_across_post:
  assumes passes: "\<not> t - last_trigger_time s < MIN_INTERVAL"
  shows "trace (snd (trigger_jenkins cfg action t out s))
           = trace s @
               [LockAcquire, WriteLastTrigger t,
                RequestsPost (JENKINS_WEBHOOK_URL cfg)
                  [(''token'', JENKINS_TOKEN cfg), (''action'', action), (''autoApprove'', ''true'')]
                  (JENKINS_USER cfg, JENKINS_API_TOKEN cfg) 5,
                LockRelease]
       \<and> last_trigger_time (snd (trigger_jenkins cfg action t out s)) = t
       \<and> fst (trigger_jenkins cfg action t out s) = (out = Response 200)"
  using passes by (simp add: trigger_jenkins_forwarded)

text \<open>
  The theorem on a fresh server at time 100, with an endpoint that cannot be reached.
\<close>

theorem C8_lock_held_across_post_witness:
  "\<not> (100::real) - last_trigger_time (startup None) < MIN_INTERVAL
   \<and> trace (snd (trigger_jenkins demo_config ''apply'' 100 RequestException (startup None)))
       = [LockAcquire, WriteLastTrigger 100,
          RequestsPost ''https://jenkins.example/generic-webhook-trigger/invoke''
            [(''token'', ''job-token''), (''action'', ''apply''), (''autoApprove'', ''true'')]
            (''admin'', ''api-token'') 5,
          LockRelease]
   \<and> last_trigger_time (snd (trigger_jenkins demo_config ''apply'' 100 RequestException (startup None))) = 100
   \<and> \<not> fst (trigger_jenkins demo_config ''apply'' 100 RequestException (startup None))"
proof -
  have h: "\<not> (100::real) - last_trigger_time (startup None) < MIN_INTERVAL"
    by (simp add: startup_def MIN_INTERVAL_def)
  show ?thesis
    using h C8_lock_held_across_post [OF h, of demo_config "''apply''" RequestException]
    by (simp add: startup_def demo_config_def)
qed

text \<open>
  The claim as the spec words it, that the lock is released before the outbound call,
  fails on a fresh server at time 100: the release is the last effect, and no release
  stands before the call of \<^verbatim>\<open>requests.post\<close>.
\<close>

theorem C8_release_before_post_counterexample:
  "trace (snd (trigger_jenkins demo_config ''apply'' 100 (Response 200) (startup None)))
     = [LockAcquire, WriteLastTrigger 100,
        RequestsPost ''https://jenkins.example/generic-webhook-trigger/invoke''
          [(''token'', ''job-token''), (''action'', ''apply''), (''autoApprove'', ''true'')]
          (''admin'', ''api-token'') 5,
        LockRelease]
   \<and> LockRelease \<notin> set (takeWhile (\<lambda>e. \<not> is_post e)
         (trace (snd (trigger_jenkins demo_config ''apply'' 100 (Response 200) (startup None)))))"
proof -
  have "\<not> (100::real) - last_trigger_time (startup None) < MIN_INTERVAL"
    by (simp add: startup_def MIN_INTERVAL_def)
  then show ?thesis
    by (simp add: trigger_jenkins_forwarded startup_def demo_config_def)
qed

section \<open>EXECUTE\<close>

lemma smarthome_execute_response:
  assumes "intent data = ''action.devices.EXECUTE''"
  shows "fst (smarthome cfg world data s)
           = (requestId data, ExecutePayload (fst (execute_commands cfg world (commands data) ([], 0, s))))"
  using assms by (simp add: smarthome_def Let_def)

text \<open>
  Claim C4. One iteration of EXECUTE, for the device \<open>did\<close> of the command \<open>cmd\<close>, in any
  state and whatever the clock and the endpoint do. The requested value is the \<^verbatim>\<open>on\<close>
  parameter, false when the command has none. After the iteration the entry of \<open>did\<close> in
  \<^verbatim>\<open>device_states\<close> is the requested value. The write to \<^verbatim>\<open>device_states\<close> is the first
  effect of the iteration, before the lock is taken and before any call of
  \<^verbatim>\<open>requests.post\<close>, whether or not such a call follows. The result names \<open>did\<close> and
  reports \<^verbatim>\<open>{online: true, on: requested}\<close>. Its status is \<^verbatim>\<open>SUCCESS\<close> exactly when the
  iteration made the outbound call and the endpoint answered 200, and \<^verbatim>\<open>ERROR\<close>
  otherwise. For a whole EXECUTE request the response lists one such result for each
  device of each command, in order, and the state it leaves is the state after these
  iterations.
\<close>

theorem C4_execute_sets_state_first:
  "get_default (params cmd) ''on'' False = (case params cmd ''on'' of None \<Rightarrow> False | Some b \<Rightarrow> b)
   \<and> device_states (snd (execute_device cfg cmd did w s)) did
       = Some (get_default (params cmd) ''on'' False)
   \<and> trace (snd (execute_device cfg cmd did w s))
       = trace s @ WriteDeviceState did (get_default (params cmd) ''on'' False) #
           (if fst w - last_trigger_time s < MIN_INTERVAL then [LockAcquire, LockRelease]
            else [LockAcquire, WriteLastTrigger (fst w),
                  RequestsPost (JENKINS_WEBHOOK_URL cfg)
                    [(''token'', JENKINS_TOKEN cfg),
                     (''action'', if get_default (params cmd) ''on'' False then ''apply'' else ''destroy''),
                     (''autoApprove'', ''true'')]
                    (JENKINS_USER cfg, JENKINS_API_TOKEN cfg) 5,
                  LockRelease])
   \<and> ids (fst (execute_device cfg cmd did w s)) = [did]
   \<and> states (fst (execute_device cfg cmd did w s))
       = \<lparr>online = True, on = get_default (params cmd) ''on'' False\<rparr>
   \<and> (status (fst (execute_device cfg cmd did w s)) = ''SUCCESS'')
       = (posts_made (snd (execute_device cfg cmd did w s)) = Suc (posts_made s)
          \<and> snd w = Response 200)
   \<and> (status (fst (execute_device cfg cmd did w s)) = ''SUCCESS''
      \<or> status (fst (execute_device cfg cmd did w s)) = ''ERROR'')
   \<and> (intent data = ''action.devices.EXECUTE'' \<longrightarrow>
        fst (smarthome cfg world data s)
          = (requestId data, ExecutePayload (fst (execute_commands cfg world (commands data) ([], 0, s))))
      \<and> map ids (fst (execute_commands cfg world (commands data) ([], 0, s)))
          = map (\<lambda>(c, d). [d]) (targets_of (commands data))
      \<and> map states (fst (execute_commands cfg world (commands data) ([], 0, s)))
          = map (\<lambda>(c, d). \<lparr>online = True, on = get_default (params c) ''on'' False\<rparr>)
              (targets_of (commands data))
      \<and> snd (smarthome cfg world data s)
          = run cfg (iterations world 0 (targets_of (commands data))) s)"
proof -
  have one: "get_default (params cmd) ''on'' False
      = (case params cmd ''on'' of None \<Rightarrow> False | Some b \<Rightarrow> b)"
    by (simp add: get_default_def)
  have two: "device_states (snd (execute_device cfg cmd did w s)) did
       = Some (get_default (params cmd) ''on'' False)"
    by (simp add: execute_device_device_states)
  have three: "trace (snd (execute_device cfg cmd did w s))
       = trace s @ WriteDeviceState did (get_default (params cmd) ''on'' False) #
           (if fst w - last_trigger_time s < MIN_INTERVAL then [LockAcquire, LockRelease]
            else [LockAcquire, WriteLastTrigger (fst w),
                  RequestsPost (JENKINS_WEBHOOK_URL cfg)
                    [(''token'', JENKINS_TOKEN cfg),
                     (''action'', if get_default (params cmd) ''on'' False then ''apply'' else ''destroy''),
                     (''autoApprove'', ''true'')]
                    (JENKINS_USER cfg, JENKINS_API_TOKEN cfg) 5,
                  LockRelease])"
    by (simp add: execute_device_suppressed execute_device_forwarded)
  have four: "(status (fst (execute_device cfg cmd did w s)) = ''SUCCESS'')
       = (posts_made (snd (execute_device cfg cmd did w s)) = Suc (posts_made s)
          \<and> snd w = Response 200)"
    by (simp add: execute_device_posts) (simp add: execute_device_suppressed execute_device_forwarded)
  have five: "status (fst (execute_device cfg cmd did w s)) = ''SUCCESS''
      \<or> status (fst (execute_device cfg cmd did w s)) = ''ERROR''"
    by (simp add: execute_device_def Let_def)
  have six: "fst (smarthome cfg world data s)
          = (requestId data, ExecutePayload (fst (execute_commands cfg world (commands data) ([], 0, s))))
      \<and> map ids (fst (execute_commands cfg world (commands data) ([], 0, s)))
          = map (\<lambda>(c, d). [d]) (targets_of (commands data))
      \<and> map states (fst (execute_commands cfg world (commands data) ([], 0, s)))
          = map (\<lambda>(c, d). \<lparr>online = True, on = get_default (params c) ''on'' False\<rparr>)
              (targets_of (commands data))
      \<and> snd (smarthome cfg world data s)
          = run cfg (iterations world 0 (targets_of (commands data))) s"
    if ex: "intent data = ''action.devices.EXECUTE''"
    using smarthome_execute_response [OF ex] smarthome_execute_run [OF ex]
      execute_commands_results [of cfg world "commands data" "[]" 0 s]
    by simp
  show ?thesis
    using one two three four five six execute_device_result [of cfg cmd did w s] by blast
qed


text \<open>
  The theorem at an iteration that falls into the cooldown (time 103 after a call at
  100, no \<^verbatim>\<open>on\<close> parameter): the entry is set to false, the result reports false and
  \<^verbatim>\<open>ERROR\<close>. And at a request of three iterations.
\<close>

theorem C4_execute_sets_state_first_witness:
  "device_states
     (snd (execute_device demo_config switch_unset ''jenkins_job'' (103, Response 200)
        (snd (execute_device demo_config switch_on ''jenkins_job'' (100, Response 200) (startup None)))))
     ''jenkins_job'' = Some False
   \<and> states
     (fst (execute_device demo_config switch_unset ''jenkins_job'' (103, Response 200)
        (snd (execute_device demo_config switch_on ''jenkins_job'' (100, Response 200) (startup None)))))
     = \<lparr>online = True, on = False\<rparr>
   \<and> status
     (fst (execute_device demo_config switch_unset ''jenkins_job'' (103, Response 200)
        (snd (execute_device demo_config switch_on ''jenkins_job'' (100, Response 200) (startup None)))))
     = ''ERROR''
   \<and> intent execute_request = ''action.devices.EXECUTE''
   \<and> map ids (fst (execute_commands demo_config demo_world (commands execute_request)
                     ([], 0, startup None)))
     = [[''jenkins_job''], [''jenkins_job''], [''lamp'']]
   \<and> map states (fst (execute_commands demo_config demo_world (commands execute_request)
                        ([], 0, startup None)))
     = [\<lparr>online = True, on = True\<rparr>, \<lparr>online = True, on = False\<rparr>, \<lparr>online = True, on = False\<rparr>]"
proof -
  let ?s1 = "snd (execute_device demo_config switch_on ''jenkins_job'' (100, Response 200) (startup None))"
  let ?w = "(103 :: real, Response 200)"
  have ex: "intent execute_request = ''action.devices.EXECUTE''"
    by (simp add: execute_request_def)
  have last: "last_trigger_time ?s1 = 100"
    by (simp add: execute_device_last startup_def MIN_INTERVAL_def)
  have quiet: "posts_made (snd (execute_device demo_config switch_unset ''jenkins_job'' ?w ?s1))
      = posts_made ?s1"
    by (simp add: execute_device_posts last MIN_INTERVAL_def)
  have unset: "get_default (params switch_unset) ''on'' False = False"
    by (simp add: switch_unset_def get_default_def)
  have targets: "targets_of (commands execute_request)
      = [(switch_on, ''jenkins_job''), (two_unset, ''jenkins_job''), (two_unset, ''lamp'')]"
    by (simp add: targets_of_def execute_request_def switch_on_def two_unset_def)
  have vals: "get_default (params switch_on) ''on'' False = True"
    "get_default (params two_unset) ''on'' False = False"
    by (simp_all add: switch_on_def two_unset_def get_default_def)
  note main = C4_execute_sets_state_first
    [of switch_unset demo_config "''jenkins_job''" ?w ?s1 execute_request demo_world]
  note whole = C4_execute_sets_state_first
    [of switch_unset demo_config "''jenkins_job''" ?w "startup None" execute_request demo_world]
  from main have err: "status (fst (execute_device demo_config switch_unset ''jenkins_job'' ?w ?s1)) = ''ERROR''"
    using quiet by auto
  show ?thesis
    using main whole ex err by (simp add: unset targets vals)
qed

section \<open>The cooldown between calls\<close>

lemma smarthome_other:
  "intent data \<noteq> ''action.devices.EXECUTE'' \<Longrightarrow> snd (smarthome cfg world data s) = s"
  by (simp add: smarthome_def Let_def)

lemma iterations_last_mono:
  "last_trigger_time s \<le> last_trigger_time (run cfg (iterations world k ts) s)"
proof (induction ts arbitrary: k s)
  case Nil
  then show ?case by (simp add: run_Nil)
next
  case (Cons a ts)
  obtain cmd did where a: "a = (cmd, did)" by (cases a)
  have "last_trigger_time s \<le> last_trigger_time (snd (execute_device cfg cmd did (world k) s))"
    by (rule execute_device_last_mono)
  also have "\<dots> \<le> last_trigger_time
      (run cfg (iterations world (Suc k) ts) (snd (execute_device cfg cmd did (world k) s)))"
    by (rule Cons.IH)
  finally show ?case by (simp add: a run_Cons)
qed

lemma serve_last_mono: "last_trigger_time s \<le> last_trigger_time (serve cfg r s)"
proof (cases r)
  case (SmarthomeRequest world data)
  show ?thesis
  proof (cases "intent data = ''action.devices.EXECUTE''")
    case True
    then show ?thesis
      using SmarthomeRequest iterations_last_mono [of s cfg world 0 "targets_of (commands data)"]
      by (simp add: smarthome_execute_run)
  next
    case False
    then show ?thesis using SmarthomeRequest by (simp add: smarthome_other)
  qed
next
  case (ExecuteIteration cmd did w)
  then show ?thesis by (simp add: execute_device_last_mono)
qed (simp_all add: authorize_frame token_frame)

lemma run_last_mono: "last_trigger_time s \<le> last_trigger_time (run cfg reqs s)"
proof (induction reqs arbitrary: s)
  case Nil
  then show ?case by (simp add: run_Nil)
next
  case (Cons r reqs)
  have "last_trigger_time s \<le> last_trigger_time (serve cfg r s)"
    by (rule serve_last_mono)
  also have "\<dots> \<le> last_trigger_time (run cfg reqs (serve cfg r s))"
    by (rule Cons.IH)
  finally show ?case by (simp add: run_Cons)
qed

lemma targets_of_empty:
  "concat (map devices cmds) = [] \<Longrightarrow> targets_of cmds = []"
  by (induction cmds) (simp_all add: targets_of_def)

lemma serve_idle:
  assumes "targeted r = []"
  shows "last_trigger_time (serve cfg r s) = last_trigger_time s"
    and "trace (serve cfg r s) = trace s"
proof -
  have "last_trigger_time (serve cfg r s) = last_trigger_time s \<and> trace (serve cfg r s) = trace s"
  proof (cases r)
    case (SmarthomeRequest world data)
    show ?thesis
    proof (cases "intent data = ''action.devices.EXECUTE''")
      case True
      then have "targets_of (commands data) = []"
        using assms SmarthomeRequest by (simp add: targets_of_empty)
      then show ?thesis
        using True SmarthomeRequest by (simp add: smarthome_execute_run run_Nil)
    next
      case False
      then show ?thesis using SmarthomeRequest by (simp add: smarthome_other)
    qed
  next
    case (ExecuteIteration cmd did w)
    then show ?thesis using assms by simp
  qed (simp_all add: authorize_frame token_frame)
  then show "last_trigger_time (serve cfg r s) = last_trigger_time s"
    and "trace (serve cfg r s) = trace s" by simp_all
qed

lemma run_idle:
  "\<forall>r \<in> set reqs. targeted r = [] \<Longrightarrow>
     last_trigger_time (run cfg reqs s) = last_trigger_time s \<and> trace (run cfg reqs s) = trace s"
  by (induction reqs arbitrary: s) (simp_all add: run_Nil run_Cons serve_idle)

text \<open>
  Claim C3. Two iterations of EXECUTE, \<open>A\<close> and then \<open>B\<close>, for any commands and devices
  (the same or different ones), each with its one call of \<^verbatim>\<open>trigger_jenkins\<close>, and any
  sequence of requests and iterations between them; \<open>tA\<close> and \<open>tB\<close> are the times the
  two calls read. \<open>posts_made\<close> counts the calls of \<^verbatim>\<open>requests.post\<close>, so an iteration
  made the outbound call when the count went up by one, and made none when it stayed.
  \<^item> If the two times differ by less than \<^verbatim>\<open>MIN_INTERVAL\<close> (10 seconds), at most one of
    the two iterations makes the outbound call.
  \<^item> An iteration makes one outbound call or none; when it makes none, its result has
    status \<^verbatim>\<open>ERROR\<close> and reports the requested value, and the entry of the device in
    \<^verbatim>\<open>device_states\<close> is the requested value all the same.
  \<^item> If \<open>A\<close> is itself at least 10 seconds after the last forwarded call, \<open>B\<close> is at
    least 10 seconds after \<open>A\<close>, and nothing between them runs an EXECUTE iteration,
    both make the outbound call.
\<close>

theorem C3_cooldown_between_calls:
  assumes s2: "s2 = snd (execute_device cfg cmdA didA (tA, outA) s1)"
    and s3: "s3 = run cfg between s2"
    and s4: "s4 = snd (execute_device cfg cmdB didB (tB, outB) s3)"
  shows "(\<bar>tA - tB\<bar> < MIN_INTERVAL \<longrightarrow>
            posts_made s2 = posts_made s1 \<or> posts_made s4 = posts_made s3)
       \<and> (posts_made s4 = posts_made s3 \<or> posts_made s4 = Suc (posts_made s3))
       \<and> (posts_made s4 = posts_made s3 \<longrightarrow>
            status (fst (execute_device cfg cmdB didB (tB, outB) s3)) = ''ERROR''
          \<and> on (states (fst (execute_device cfg cmdB didB (tB, outB) s3)))
              = get_default (params cmdB) ''on'' False
          \<and> device_states s4 didB = Some (get_default (params cmdB) ''on'' False))
       \<and> (MIN_INTERVAL \<le> tA - last_trigger_time s1 \<and> MIN_INTERVAL \<le> tB - tA
            \<and> (\<forall>r \<in> set between. targeted r = []) \<longrightarrow>
            posts_made s2 = Suc (posts_made s1) \<and> posts_made s4 = Suc (posts_made s3))"
proof -
  have postsA: "posts_made s2
      = (if tA - last_trigger_time s1 < MIN_INTERVAL then posts_made s1 else Suc (posts_made s1))"
    using s2 by (simp add: execute_device_posts)
  have postsB: "posts_made s4
      = (if tB - last_trigger_time s3 < MIN_INTERVAL then posts_made s3 else Suc (posts_made s3))"
    using s4 by (simp add: execute_device_posts)
  have lastA: "last_trigger_time s2
      = (if tA - last_trigger_time s1 < MIN_INTERVAL then last_trigger_time s1 else tA)"
    using s2 by (simp add: execute_device_last)
  have mono: "last_trigger_time s2 \<le> last_trigger_time s3"
    using s3 by (simp add: run_last_mono)
  have one: "posts_made s2 = posts_made s1 \<or> posts_made s4 = posts_made s3"
    if near: "\<bar>tA - tB\<bar> < MIN_INTERVAL"
  proof (cases "tA - last_trigger_time s1 < MIN_INTERVAL")
    case True
    then show ?thesis using postsA by simp
  next
    case False
    then have "tA \<le> last_trigger_time s3" using lastA mono by simp
    then have "tB - last_trigger_time s3 < MIN_INTERVAL" using near by simp
    then show ?thesis using postsB by simp
  qed
  have two: "posts_made s4 = posts_made s3 \<or> posts_made s4 = Suc (posts_made s3)"
    using postsB by simp
  have three: "status (fst (execute_device cfg cmdB didB (tB, outB) s3)) = ''ERROR''
          \<and> on (states (fst (execute_device cfg cmdB didB (tB, outB) s3)))
              = get_default (params cmdB) ''on'' False
          \<and> device_states s4 didB = Some (get_default (params cmdB) ''on'' False)"
    if quiet: "posts_made s4 = posts_made s3"
  proof -
    have "tB - last_trigger_time s3 < MIN_INTERVAL"
      using quiet postsB by (simp split: if_splits)
    then have "fst (tB, outB) - last_trigger_time s3 < MIN_INTERVAL" by simp
    from execute_device_suppressed [OF this, of cfg cmdB didB]
    show ?thesis using s4 by simp
  qed
  have four: "posts_made s2 = Suc (posts_made s1) \<and> posts_made s4 = Suc (posts_made s3)"
    if far: "MIN_INTERVAL \<le> tA - last_trigger_time s1" "MIN_INTERVAL \<le> tB - tA"
      and idle: "\<forall>r \<in> set between. targeted r = []"
  proof -
    have "last_trigger_time s3 = last_trigger_time s2"
      using s3 run_idle [OF idle, of cfg s2] by simp
    then have "last_trigger_time s3 = tA" using lastA far by simp
    then show ?thesis using postsA postsB far by simp
  qed
  show ?thesis using one two three four by blast
qed


text \<open>
  The theorem on a fresh server: a call at 100 is forwarded; after an iteration for
  another device and a refresh, a call at 105 makes no outbound call, reports \<^verbatim>\<open>ERROR\<close>
  and still sets the device to the requested value; a call at 115 instead is forwarded.
\<close>

theorem C3_cooldown_between_calls_witness:
  "\<bar>(100::real) - 105\<bar> < MIN_INTERVAL
   \<and> posts_made after_first = Suc (posts_made (startup None))
   \<and> posts_made (snd (execute_device demo_config switch_unset ''jenkins_job'' (105, Response 200)
                        (run demo_config in_between after_first)))
       = posts_made (run demo_config in_between after_first)
   \<and> status (fst (execute_device demo_config switch_unset ''jenkins_job'' (105, Response 200)
                     (run demo_config in_between after_first))) = ''ERROR''
   \<and> device_states (snd (execute_device demo_config switch_unset ''jenkins_job'' (105, Response 200)
                           (run demo_config in_between after_first))) ''jenkins_job'' = Some False
   \<and> MIN_INTERVAL \<le> (100::real) - last_trigger_time (startup None)
   \<and> MIN_INTERVAL \<le> (115::real) - 100
   \<and> posts_made (snd (execute_device demo_config switch_unset ''jenkins_job'' (115, Response 200)
                        (run demo_config [TokenRequest refresh_form draw_a] after_first)))
       = Suc (posts_made (run demo_config [TokenRequest refresh_form draw_a] after_first))"
proof -
  have near: "\<bar>(100::real) - 105\<bar> < MIN_INTERVAL"
    and far: "MIN_INTERVAL \<le> (100::real) - last_trigger_time (startup None)"
      "MIN_INTERVAL \<le> (115::real) - 100"
    by (simp_all add: MIN_INTERVAL_def startup_def)
  have first: "posts_made after_first = Suc (posts_made (startup None))"
    by (simp add: after_first_def execute_device_posts startup_def MIN_INTERVAL_def)
  have idle: "\<forall>r \<in> set [TokenRequest refresh_form draw_a]. targeted r = []"
    by simp
  have unset: "get_default (params switch_unset) ''on'' False = False"
    by (simp add: switch_unset_def get_default_def)
  note close = C3_cooldown_between_calls
    [of after_first demo_config switch_on "''jenkins_job''" 100 "Response 200" "startup None"
        "run demo_config in_between after_first" in_between
        "snd (execute_device demo_config switch_unset ''jenkins_job'' (105, Response 200)
               (run demo_config in_between after_first))"
        switch_unset "''jenkins_job''" 105 "Response 200",
     OF after_first_def refl refl]
  note apart = C3_cooldown_between_calls
    [of after_first demo_config switch_on "''jenkins_job''" 100 "Response 200" "startup None"
        "run demo_config [TokenRequest refresh_form draw_a] after_first"
        "[TokenRequest refresh_form draw_a]"
        "snd (execute_device demo_config switch_unset ''jenkins_job'' (115, Response 200)
               (run demo_config [TokenRequest refresh_form draw_a] after_first))"
        switch_unset "''jenkins_job''" 115 "Response 200",
     OF after_first_def refl refl]
  from close near first
  have quiet: "posts_made (snd (execute_device demo_config switch_unset ''jenkins_job'' (105, Response 200)
                        (run demo_config in_between after_first)))
       = posts_made (run demo_config in_between after_first)"
    by simp
  from apart far idle
  have both: "posts_made (snd (execute_device demo_config switch_unset ''jenkins_job'' (115, Response 200)
                        (run demo_config [TokenRequest refresh_form draw_a] after_first)))
       = Suc (posts_made (run demo_config [TokenRequest refresh_form draw_a] after_first))"
    by blast
  from close quiet
  have err: "status (fst (execute_device demo_config switch_unset ''jenkins_job'' (105, Response 200)
                     (run demo_config in_between after_first))) = ''ERROR''
     \<and> device_states (snd (execute_device demo_config switch_unset ''jenkins_job'' (105, Response 200)
                           (run demo_config in_between after_first))) ''jenkins_job''
         = Some (get_default (params switch_unset) ''on'' False)"
    by blast
  show ?thesis
    using near far first quiet both err unset by simp
qed

section \<open>Login submission\<close>

lemma authorize_post:
  "authorize cfg POST args frm rnd s =
     ((case frm ''redirect_uri'' of
         None \<Rightarrow> Inl TypeError
       | Some uri \<Rightarrow>
           Inr (Redirect (uri @ (if CHR ''?'' \<in> set uri then ''&'' else ''?'') @ ''code='' @ rnd 8
                            @ ''&state='' @ form_get frm ''state'' ''''))),
      s\<lparr>auth_codes := (auth_codes s)(rnd 8 \<mapsto> (frm ''client_id'', frm ''redirect_uri''))\<rparr>)"
  by (simp add: authorize_def Let_def split: option.splits)

text \<open>
  Claim C10, for the requests that carry a redirect target. A login submission (POST
  \<^verbatim>\<open>/authorize\<close>) draws a code and stores it under the client id and redirect uri of
  the form, as read, and changes nothing else. The outcome does not depend on the
  registry of clients, so a client id that is not registered is served like any other,
  nor on the query string, nor on the user name and password of the form. When the form
  has a \<^verbatim>\<open>redirect_uri\<close>, the response is a redirect to it with \<^verbatim>\<open>code\<close> and \<^verbatim>\<open>state\<close>
  appended, after \<^verbatim>\<open>&\<close> if the uri contains a question mark and after \<^verbatim>\<open>?\<close> if not.
\<close>

theorem C10_login_submission_unchecked:
  "snd (authorize cfg POST args frm rnd s)
     = s\<lparr>auth_codes := (auth_codes s)(rnd 8 \<mapsto> (frm ''client_id'', frm ''redirect_uri''))\<rparr>
   \<and> authorize cfg' POST args' frm rnd s = authorize cfg POST args frm rnd s
   \<and> authorize cfg POST args (frm(''username'' := user, ''password'' := pass)) rnd s
       = authorize cfg POST args frm rnd s
   \<and> (\<forall>uri. frm ''redirect_uri'' = Some uri \<longrightarrow>
         fst (authorize cfg POST args frm rnd s)
           = Inr (Redirect (uri @ (if CHR ''?'' \<in> set uri then ''&'' else ''?'')
                              @ ''code='' @ rnd 8 @ ''&state='' @ form_get frm ''state'' '''')))"
  by (simp add: authorize_post form_get_def split: option.splits)

text \<open>
  The theorem at a submission for the client id \<^verbatim>\<open>ghost\<close>, which the registry does not
  know.
\<close>

theorem C10_login_submission_unchecked_witness:
  "login_form ''redirect_uri'' = Some ''https://oauth-redirect.example/r/project''
   \<and> authorize demo_config POST Map.empty (login_form(''client_id'' \<mapsto> ''ghost'')) draw_a (startup None)
       = (Inr (Redirect ''https://oauth-redirect.example/r/project?code=AAAAAAAAAAA&state=xyz''),
          (startup None)\<lparr>auth_codes :=
             [''AAAAAAAAAAA'' \<mapsto> (Some ''ghost'', Some ''https://oauth-redirect.example/r/project'')]\<rparr>)
   \<and> VALID_CLIENTS demo_config ''ghost'' = None"
proof -
  have uri: "(login_form(''client_id'' \<mapsto> ''ghost'')) ''redirect_uri''
      = Some ''https://oauth-redirect.example/r/project''"
    and st: "form_get (login_form(''client_id'' \<mapsto> ''ghost'')) ''state'' '''' = ''xyz''"
    and cid: "(login_form(''client_id'' \<mapsto> ''ghost'')) ''client_id'' = Some ''ghost''"
    by (simp_all add: login_form_def form_get_def)
  note main = C10_login_submission_unchecked
    [of demo_config Map.empty "login_form(''client_id'' \<mapsto> ''ghost'')" draw_a "startup None"]
  from main uri have resp: "fst (authorize demo_config POST Map.empty (login_form(''client_id'' \<mapsto> ''ghost'')) draw_a (startup None))
      = Inr (Redirect (''https://oauth-redirect.example/r/project''
           @ (if CHR ''?'' \<in> set ''https://oauth-redirect.example/r/project'' then ''&'' else ''?'')
           @ ''code='' @ draw_a 8 @ ''&state''
           @ ''='' @ form_get (login_form(''client_id'' \<mapsto> ''ghost'')) ''state'' ''''))"
    by simp
  from main have st': "snd (authorize demo_config POST Map.empty (login_form(''client_id'' \<mapsto> ''ghost'')) draw_a (startup None))
     = (startup None)\<lparr>auth_codes := (auth_codes (startup None))(draw_a 8 \<mapsto>
          ((login_form(''client_id'' \<mapsto> ''ghost'')) ''client_id'',
           (login_form(''client_id'' \<mapsto> ''ghost'')) ''redirect_uri''))\<rparr>"
    by blast
  have "authorize demo_config POST Map.empty (login_form(''client_id'' \<mapsto> ''ghost'')) draw_a (startup None)
      = (fst (authorize demo_config POST Map.empty (login_form(''client_id'' \<mapsto> ''ghost'')) draw_a (startup None)),
         snd (authorize demo_config POST Map.empty (login_form(''client_id'' \<mapsto> ''ghost'')) draw_a (startup None)))"
    by simp
  then show ?thesis
    unfolding resp st' uri st cid
    by (simp add: login_form_def draw_a_def startup_def demo_config_def)
qed

text \<open>
  The claim says the handler redirects for every request. A submission without a
  \<^verbatim>\<open>redirect_uri\<close> field gets no redirect: the code is stored, bound to no uri, and
  \<^verbatim>\<open>'?' in redirect_uri\<close> then raises \<open>TypeError\<close>.
\<close>

theorem C10_missing_redirect_uri_counterexample:
  "fst (authorize demo_config POST Map.empty
          [''client_id'' \<mapsto> ''google-client'', ''state'' \<mapsto> ''xyz''] draw_a (startup None))
     = Inl TypeError
   \<and> auth_codes (snd (authorize demo_config POST Map.empty
          [''client_id'' \<mapsto> ''google-client'', ''state'' \<mapsto> ''xyz''] draw_a (startup None)))
        ''AAAAAAAAAAA''
     = Some (Some ''google-client'', None)"
  by (simp add: authorize_post draw_a_def)

section \<open>Minting tokens\<close>

lemma token_exchange_grant:
  assumes "frm ''grant_type'' = Some ''authorization_code''"
    and "frm ''code'' = Some c"
    and "auth_codes s c = Some (frm ''client_id'', frm ''redirect_uri'')"
    and "dict_get (VALID_CLIENTS cfg) (frm ''client_id'') = frm ''client_secret''"
  shows "token cfg frm rnd s =
           ((GrantBody (rnd 16) ''Bearer'' 3600 (Some (rnd 24)), 200),
            save_tokens_to_file
              (s\<lparr>auth_codes := (auth_codes s)(c := None),
                 access_tokens := (access_tokens s)(rnd 16 \<mapsto> frm ''client_id''),
                 refresh_tokens := (refresh_tokens s)(rnd 24 \<mapsto> frm ''client_id'')\<rparr>))"
  using assms by (simp add: token_def Let_def dict_pop_def)

lemma token_granted_cases:
  assumes "fst (token cfg frm rnd s) = (GrantBody a ty life rt, st)"
  shows "a = rnd 16
       \<and> access_tokens (snd (token cfg frm rnd s)) = (access_tokens s)(rnd 16 \<mapsto> frm ''client_id'')"
  using assms
  by (auto simp add: token_def Let_def save_tokens_to_file_def split: if_splits option.splits)

text \<open>
  Claim C6, as the code has it. Whenever \<^verbatim>\<open>/token\<close> answers with a grant (a code
  exchange or a refresh), the access token in the response is the string
  \<^verbatim>\<open>secrets.token_urlsafe(16)\<close> returned in this request. The handler binds it to the
  client id of the request without looking it up first: the store afterwards is the
  store before with this one key set, every other key as it was. So the token is absent
  from the store before the call exactly when the generator did not return a key of
  that store; the handler itself does nothing to make it so.
\<close>

theorem C6_access_token_is_the_draw:
  assumes granted: "fst (token cfg frm rnd s) = (GrantBody a ty life rt, st)"
  shows "a = rnd 16
       \<and> access_tokens (snd (token cfg frm rnd s)) = (access_tokens s)(a \<mapsto> frm ''client_id'')
       \<and> (\<forall>t. t \<noteq> a \<longrightarrow> access_tokens (snd (token cfg frm rnd s)) t = access_tokens s t)
       \<and> (a \<notin> dom (access_tokens s)) = (rnd 16 \<notin> dom (access_tokens s))"
  using token_granted_cases [OF granted] by simp

text \<open>
  The theorem at a refresh whose draw is not in the store: the new token is added and the
  token that was there stays.
\<close>

theorem C6_access_token_is_the_draw_witness:
  "fst (token demo_config refresh_form draw_b crowded)
     = (GrantBody ''BBBBBBBBBBBBBBBBBBBBBA'' ''Bearer'' 3600 None, 200)
   \<and> ''BBBBBBBBBBBBBBBBBBBBBA'' = draw_b 16
   \<and> access_tokens (snd (token demo_config refresh_form draw_b crowded)) ''BBBBBBBBBBBBBBBBBBBBBA''
       = Some (Some ''google-client'')
   \<and> access_tokens (snd (token demo_config refresh_form draw_b crowded)) ''AAAAAAAAAAAAAAAAAAAAAA''
       = Some (Some ''other-client'')
   \<and> ''BBBBBBBBBBBBBBBBBBBBBA'' \<notin> dom (access_tokens crowded)"
proof -
  have granted: "fst (token demo_config refresh_form draw_b crowded)
     = (GrantBody ''BBBBBBBBBBBBBBBBBBBBBA'' ''Bearer'' 3600 None, 200)"
    by (simp add: token_def Let_def refresh_form_def demo_config_def crowded_def startup_def
          load_tokens_from_file_def dict_get_def store_get_def draw_b_def)
  have old: "access_tokens crowded = [''AAAAAAAAAAAAAAAAAAAAAA'' \<mapsto> Some ''other-client'']"
    by (simp add: crowded_def startup_def load_tokens_from_file_def)
  have cid: "refresh_form ''client_id'' = Some ''google-client''"
    by (simp add: refresh_form_def)
  from C6_access_token_is_the_draw [OF granted]
  have stored: "access_tokens (snd (token demo_config refresh_form draw_b crowded))
      = (access_tokens crowded)(''BBBBBBBBBBBBBBBBBBBBBA'' \<mapsto> refresh_form ''client_id'')"
    and fresh: "(''BBBBBBBBBBBBBBBBBBBBBA'' \<notin> dom (access_tokens crowded))
      = (draw_b 16 \<notin> dom (access_tokens crowded))"
    by blast+
  have drawn: "draw_b 16 = ''BBBBBBBBBBBBBBBBBBBBBA''"
    by (simp add: draw_b_def)
  show ?thesis
    unfolding stored drawn using granted fresh by (simp add: old cid)
qed

text \<open>
  The claim that the returned token is never one already in the store fails when the
  generator returns such a one: the refresh is granted with the token that was bound to
  another client, and the token is bound to the refreshing client afterwards.
\<close>

theorem C6_colliding_draw_counterexample:
  "fst (token demo_config refresh_form draw_a crowded)
     = (GrantBody ''AAAAAAAAAAAAAAAAAAAAAA'' ''Bearer'' 3600 None, 200)
   \<and> access_tokens crowded ''AAAAAAAAAAAAAAAAAAAAAA'' = Some (Some ''other-client'')
   \<and> access_tokens (snd (token demo_config refresh_form draw_a crowded)) ''AAAAAAAAAAAAAAAAAAAAAA''
       = Some (Some ''google-client'')"
  by (simp add: token_def Let_def refresh_form_def demo_config_def crowded_def startup_def
        load_tokens_from_file_def dict_get_def store_get_def draw_a_def save_tokens_to_file_def)

section \<open>Client authentication at the token endpoint\<close>

text \<open>
  With a \<^verbatim>\<open>client_secret\<close> in the form the check does what it is there for: a secret
  that is not the one registered for the client id, and any secret for a client id
  that is not registered or not sent, is refused with \<^verbatim>\<open>invalid_client\<close> and 401, and
  the state is untouched.
\<close>

lemma token_rejects_wrong_secret:
  assumes "frm ''grant_type'' = Some ''authorization_code'' \<or> frm ''grant_type'' = Some ''refresh_token''"
    and "frm ''client_secret'' = Some sec"
    and "dict_get (VALID_CLIENTS cfg) (frm ''client_id'') \<noteq> Some sec"
  shows "token cfg frm rnd s = ((ErrorBody ''invalid_client'', 401), s)"
  using assms by (auto simp add: token_def Let_def)

lemma token_rejects_unregistered_with_secret:
  assumes "frm ''grant_type'' = Some ''authorization_code'' \<or> frm ''grant_type'' = Some ''refresh_token''"
    and "frm ''client_secret'' = Some sec"
    and "frm ''client_id'' = None \<or> (\<exists>cid. frm ''client_id'' = Some cid \<and> VALID_CLIENTS cfg cid = None)"
  shows "token cfg frm rnd s = ((ErrorBody ''invalid_client'', 401), s)"
  using assms by (auto simp add: token_def Let_def dict_get_def)

text \<open>
  Claim C2 fails on the code. The handler compares \<^verbatim>\<open>VALID_CLIENTS.get(client_id)\<close> with
  \<^verbatim>\<open>client_secret\<close>; for a client id that is not registered the first is \<open>None\<close>, and
  for a request without a \<^verbatim>\<open>client_secret\<close> field so is the second, and the check
  passes. A client the registry does not know, holding a code that \<^verbatim>\<open>/authorize\<close>
  issued to it and sending no secret, is granted an access and a refresh token. A
  request with nothing but \<^verbatim>\<open>grant_type=refresh_token\<close> is granted an access token in
  every state and under every registry: client id, secret and refresh token are all
  \<open>None\<close>, and so is what the refresh-token store gives for the key \<open>None\<close>.
\<close>

theorem C2_no_secret_no_check:
  assumes grant: "frm ''grant_type'' = Some ''authorization_code''"
    and unknown: "frm ''client_id'' = Some cid" "VALID_CLIENTS cfg cid = None"
    and no_secret: "frm ''client_secret'' = None"
    and code: "frm ''code'' = Some c" "auth_codes s c = Some (Some cid, frm ''redirect_uri'')"
  shows "fst (token cfg frm rnd s) = (GrantBody (rnd 16) ''Bearer'' 3600 (Some (rnd 24)), 200)
       \<and> access_tokens (snd (token cfg frm rnd s)) (rnd 16) = Some (Some cid)
       \<and> refresh_tokens (snd (token cfg frm rnd s)) (rnd 24) = Some (Some cid)
       \<and> fst (token cfg [''grant_type'' \<mapsto> ''refresh_token''] rnd s)
           = (GrantBody (rnd 16) ''Bearer'' 3600 None, 200)
       \<and> access_tokens (snd (token cfg [''grant_type'' \<mapsto> ''refresh_token''] rnd s)) (rnd 16)
           = Some None"
proof -
  have check: "dict_get (VALID_CLIENTS cfg) (frm ''client_id'') = frm ''client_secret''"
    using unknown no_secret by (simp add: dict_get_def)
  have stored: "auth_codes s c = Some (frm ''client_id'', frm ''redirect_uri'')"
    using code unknown by simp
  have bare: "token cfg [''grant_type'' \<mapsto> ''refresh_token''] rnd s
      = ((GrantBody (rnd 16) ''Bearer'' 3600 None, 200),
         save_tokens_to_file (s\<lparr>access_tokens := (access_tokens s)(rnd 16 \<mapsto> None)\<rparr>))"
    by (simp add: token_def Let_def dict_get_def store_get_def)
  show ?thesis
    using token_exchange_grant [OF grant code(1) stored check, of rnd] unknown
    by (simp add: bare save_tokens_to_file_def)
qed

text \<open>
  The theorem on a fresh server: the client \<^verbatim>\<open>ghost\<close> submits a login, exchanges the
  code without a secret, and is granted tokens.
\<close>

theorem C2_no_secret_no_check_witness:
  "ghost_exchange ''grant_type'' = Some ''authorization_code''
   \<and> ghost_exchange ''client_id'' = Some ''ghost''
   \<and> VALID_CLIENTS demo_config ''ghost'' = None
   \<and> ghost_exchange ''client_secret'' = None
   \<and> ghost_exchange ''code'' = Some ''AAAAAAAAAAA''
   \<and> auth_codes (snd (authorize demo_config POST Map.empty ghost_login draw_a (startup None)))
        ''AAAAAAAAAAA'' = Some (Some ''ghost'', ghost_exchange ''redirect_uri'')
   \<and> fst (token demo_config ghost_exchange draw_b
            (snd (authorize demo_config POST Map.empty ghost_login draw_a (startup None))))
       = (GrantBody ''BBBBBBBBBBBBBBBBBBBBBA'' ''Bearer'' 3600
            (Some ''BBBBBBBBBBBBBBBBBBBBBBBBBBBBBBBB''), 200)
   \<and> access_tokens (snd (token demo_config ghost_exchange draw_b
            (snd (authorize demo_config POST Map.empty ghost_login draw_a (startup None)))))
        ''BBBBBBBBBBBBBBBBBBBBBA'' = Some (Some ''ghost'')
   \<and> fst (token demo_config [''grant_type'' \<mapsto> ''refresh_token''] draw_b
            (snd (authorize demo_config POST Map.empty ghost_login draw_a (startup None))))
       = (GrantBody ''BBBBBBBBBBBBBBBBBBBBBA'' ''Bearer'' 3600 None, 200)"
proof -
  let ?s = "snd (authorize demo_config POST Map.empty ghost_login draw_a (startup None))"
  have h1: "ghost_exchange ''grant_type'' = Some ''authorization_code''"
    and h2: "ghost_exchange ''client_id'' = Some ''ghost''"
    and h4: "ghost_exchange ''client_secret'' = None"
    and h5: "ghost_exchange ''code'' = Some ''AAAAAAAAAAA''"
    by (simp_all add: ghost_exchange_def)
  have h3: "VALID_CLIENTS demo_config ''ghost'' = None"
    by (simp add: demo_config_def)
  have h6: "auth_codes ?s ''AAAAAAAAAAA'' = Some (Some ''ghost'', ghost_exchange ''redirect_uri'')"
    by (simp add: authorize_post ghost_login_def ghost_exchange_def draw_a_def)
  show ?thesis
    using h1 h2 h3 h4 h5 h6 C2_no_secret_no_check [OF h1 h2 h3 h4 h5 h6, of draw_b]
    by (simp add: draw_b_def)
qed

section \<open>Authorization codes are consumed\<close>

lemma token_auth_codes_shrink:
  "auth_codes s c = None \<Longrightarrow> auth_codes (snd (token cfg frm rnd s)) c = None"
  by (auto simp add: token_def Let_def save_tokens_to_file_def dict_pop_def
        split: option.splits)

lemma serve_code_absent:
  assumes "auth_codes s c = None" and "issued_code r \<noteq> Some c"
  shows "auth_codes (serve cfg r s) c = None"
proof (cases r)
  case (AuthorizeRequest meth args frm rnd)
  show ?thesis
  proof (cases meth)
    case GET
    then show ?thesis using AuthorizeRequest assms by (simp add: authorize_def Let_def)
  next
    case POST
    then show ?thesis using AuthorizeRequest assms by (simp add: authorize_post)
  qed
next
  case (TokenRequest frm rnd)
  then show ?thesis using assms by (simp add: token_auth_codes_shrink)
next
  case (SmarthomeRequest world data)
  then show ?thesis using assms by (simp add: smarthome_frame)
next
  case (ExecuteIteration cmd did w)
  then show ?thesis using assms by (simp add: execute_device_frame)
qed

lemma run_code_absent:
  "auth_codes s c = None \<Longrightarrow> \<forall>r \<in> set reqs. issued_code r \<noteq> Some c \<Longrightarrow>
     auth_codes (run cfg reqs s) c = None"
  by (induction reqs arbitrary: s) (simp_all add: run_Nil run_Cons serve_code_absent)

lemma token_exchange_absent:
  assumes "frm ''grant_type'' = Some ''authorization_code''"
    and "frm ''code'' = Some c" and "auth_codes s c = None"
    and "dict_get (VALID_CLIENTS cfg) (frm ''client_id'') = frm ''client_secret''"
  shows "fst (token cfg frm rnd s) = (ErrorBody ''invalid_grant'', 400)"
  using assms by (simp add: token_def Let_def dict_pop_def)

lemma token_exchange_mismatch:
  assumes "frm ''grant_type'' = Some ''authorization_code''"
    and "frm ''code'' = Some c" and "auth_codes s c = Some (cid0, uri0)"
    and "dict_get (VALID_CLIENTS cfg) (frm ''client_id'') = frm ''client_secret''"
    and "frm ''client_id'' \<noteq> cid0 \<or> frm ''redirect_uri'' \<noteq> uri0"
  shows "token cfg frm rnd s
           = ((ErrorBody ''invalid_grant'', 400), s\<lparr>auth_codes := (auth_codes s)(c := None)\<rparr>)"
  using assms by (auto simp add: token_def Let_def dict_pop_def)

lemma token_exchange_never_granted:
  assumes "frm ''grant_type'' = Some ''authorization_code''"
    and "frm ''code'' = Some c" and "auth_codes s c = None"
  shows "fst (fst (token cfg frm rnd s)) = ErrorBody ''invalid_client''
       \<or> fst (fst (token cfg frm rnd s)) = ErrorBody ''invalid_grant''"
  using assms by (simp add: token_def Let_def dict_pop_def)

text \<open>
  Claim C1. A login submission for the registered client \<open>cid\<close> stores the code it drew.
  The first exchange that presents this code with the client id and redirect uri of the
  submission and the secret registered for \<open>cid\<close> is granted: 200 with an access token, a
  refresh token, \<^verbatim>\<open>Bearer\<close> and 3600. The exchange removes the code from \<^verbatim>\<open>auth_codes\<close>,
  and the code stays out through any later requests, as long as no login submission
  draws the same string again. From then on the same exchange request, repeated, is
  refused with \<^verbatim>\<open>invalid_grant\<close> and 400, and so is every other exchange that presents
  the code and whose client id and secret pass the check that the handler makes before
  it looks at the code. No exchange that presents the code is granted any more: one that
  does not pass that check is refused with \<^verbatim>\<open>invalid_client\<close>.
\<close>

theorem C1_code_is_single_use:
  assumes issue: "s1 = snd (authorize cfg POST args login rnd0 s0)"
    and client: "login ''client_id'' = Some cid"
    and registered: "VALID_CLIENTS cfg cid = Some sec"
    and grant: "frm ''grant_type'' = Some ''authorization_code''"
    and code: "frm ''code'' = Some (rnd0 8)"
    and same_client: "frm ''client_id'' = Some cid"
    and same_uri: "frm ''redirect_uri'' = login ''redirect_uri''"
    and secret: "frm ''client_secret'' = Some sec"
    and first: "s2 = snd (token cfg frm rnd1 s1)"
  shows "fst (token cfg frm rnd1 s1) = (GrantBody (rnd1 16) ''Bearer'' 3600 (Some (rnd1 24)), 200)
       \<and> auth_codes s2 (rnd0 8) = None
       \<and> (\<forall>later rnd'. (\<forall>r \<in> set later. issued_code r \<noteq> Some (rnd0 8)) \<longrightarrow>
             auth_codes (run cfg later s2) (rnd0 8) = None
           \<and> fst (token cfg frm rnd' (run cfg later s2)) = (ErrorBody ''invalid_grant'', 400))
       \<and> (\<forall>later frm' rnd'.
             (\<forall>r \<in> set later. issued_code r \<noteq> Some (rnd0 8))
             \<and> frm' ''grant_type'' = Some ''authorization_code''
             \<and> frm' ''code'' = Some (rnd0 8) \<longrightarrow>
               (dict_get (VALID_CLIENTS cfg) (frm' ''client_id'') = frm' ''client_secret'' \<longrightarrow>
                  fst (token cfg frm' rnd' (run cfg later s2)) = (ErrorBody ''invalid_grant'', 400))
             \<and> (fst (fst (token cfg frm' rnd' (run cfg later s2))) = ErrorBody ''invalid_client''
                \<or> fst (fst (token cfg frm' rnd' (run cfg later s2))) = ErrorBody ''invalid_grant''))"
proof -
  have stored: "auth_codes s1 (rnd0 8) = Some (frm ''client_id'', frm ''redirect_uri'')"
    using issue client same_client same_uri by (simp add: authorize_post)
  have check: "dict_get (VALID_CLIENTS cfg) (frm ''client_id'') = frm ''client_secret''"
    using same_client registered secret by (simp add: dict_get_def)
  note granted = token_exchange_grant [OF grant code stored check, of rnd1]
  have gone: "auth_codes s2 (rnd0 8) = None"
    using first by (simp add: granted save_tokens_to_file_def)
  have absent: "auth_codes (run cfg later s2) (rnd0 8) = None"
    if "\<forall>r \<in> set later. issued_code r \<noteq> Some (rnd0 8)" for later
    using run_code_absent [OF gone that] .
  have replay: "fst (token cfg frm rnd' (run cfg later s2)) = (ErrorBody ''invalid_grant'', 400)"
    if "\<forall>r \<in> set later. issued_code r \<noteq> Some (rnd0 8)" for later rnd'
    using token_exchange_absent [OF grant code absent [OF that] check] .
  have other: "fst (token cfg frm' rnd' (run cfg later s2)) = (ErrorBody ''invalid_grant'', 400)"
    if "\<forall>r \<in> set later. issued_code r \<noteq> Some (rnd0 8)"
      and "frm' ''grant_type'' = Some ''authorization_code''" and "frm' ''code'' = Some (rnd0 8)"
      and "dict_get (VALID_CLIENTS cfg) (frm' ''client_id'') = frm' ''client_secret''"
    for later frm' rnd'
    using token_exchange_absent [OF that(2) that(3) absent [OF that(1)] that(4)] .
  have never: "fst (fst (token cfg frm' rnd' (run cfg later s2))) = ErrorBody ''invalid_client''
       \<or> fst (fst (token cfg frm' rnd' (run cfg later s2))) = ErrorBody ''invalid_grant''"
    if "\<forall>r \<in> set later. issued_code r \<noteq> Some (rnd0 8)"
      and "frm' ''grant_type'' = Some ''authorization_code''" and "frm' ''code'' = Some (rnd0 8)"
    for later frm' rnd'
    using token_exchange_never_granted [OF that(2) that(3) absent [OF that(1)]] .
  have g: "fst (token cfg frm rnd1 s1) = (GrantBody (rnd1 16) ''Bearer'' 3600 (Some (rnd1 24)), 200)"
    by (simp add: granted)
  show ?thesis
    using g gone absent replay other never by blast
qed

text \<open>
  The theorem on a fresh server: the code is exchanged once; the same request is refused
  at once, and refused after a refresh and another login submission.
\<close>

theorem C1_code_is_single_use_witness:
  "login_form ''client_id'' = Some ''google-client''
   \<and> VALID_CLIENTS demo_config ''google-client'' = Some ''s3cret''
   \<and> exchange_form ''grant_type'' = Some ''authorization_code''
   \<and> exchange_form ''code'' = Some (draw_a 8)
   \<and> exchange_form ''client_id'' = Some ''google-client''
   \<and> exchange_form ''redirect_uri'' = login_form ''redirect_uri''
   \<and> exchange_form ''client_secret'' = Some ''s3cret''
   \<and> fst (token demo_config exchange_form draw_b issued)
       = (GrantBody ''BBBBBBBBBBBBBBBBBBBBBA'' ''Bearer'' 3600
            (Some ''BBBBBBBBBBBBBBBBBBBBBBBBBBBBBBBB''), 200)
   \<and> auth_codes redeemed ''AAAAAAAAAAA'' = None
   \<and> fst (token demo_config exchange_form draw_c redeemed) = (ErrorBody ''invalid_grant'', 400)
   \<and> fst (token demo_config exchange_form draw_c (run demo_config traffic redeemed))
       = (ErrorBody ''invalid_grant'', 400)"
proof -
  have h2: "login_form ''client_id'' = Some ''google-client''"
    by (simp add: login_form_def)
  have h3: "VALID_CLIENTS demo_config ''google-client'' = Some ''s3cret''"
    by (simp add: demo_config_def)
  have h4: "exchange_form ''grant_type'' = Some ''authorization_code''"
    and h5: "exchange_form ''code'' = Some (draw_a 8)"
    and h6: "exchange_form ''client_id'' = Some ''google-client''"
    and h7: "exchange_form ''redirect_uri'' = login_form ''redirect_uri''"
    and h8: "exchange_form ''client_secret'' = Some ''s3cret''"
    by (simp_all add: exchange_form_def login_form_def draw_a_def)
  have quiet: "\<forall>r \<in> set traffic. issued_code r \<noteq> Some (draw_a 8)"
    by (simp add: traffic_def draw_a_def draw_b_def)
  have none: "\<forall>r \<in> set []. issued_code r \<noteq> Some (draw_a 8)"
    by simp
  note main = C1_code_is_single_use [OF issued_def h2 h3 h4 h5 h6 h7 h8 redeemed_def]
  from main have a: "fst (token demo_config exchange_form draw_b issued)
       = (GrantBody (draw_b 16) ''Bearer'' 3600 (Some (draw_b 24)), 200)"
    and b: "auth_codes redeemed (draw_a 8) = None"
    by blast+
  from main quiet
  have c: "fst (token demo_config exchange_form draw_c (run demo_config traffic redeemed))
       = (ErrorBody ''invalid_grant'', 400)"
    by blast
  from main none
  have d: "fst (token demo_config exchange_form draw_c (run demo_config [] redeemed))
       = (ErrorBody ''invalid_grant'', 400)"
    by blast
  have e: "draw_a 8 = ''AAAAAAAAAAA''" "draw_b 16 = ''BBBBBBBBBBBBBBBBBBBBBA''"
    "draw_b 24 = ''BBBBBBBBBBBBBBBBBBBBBBBBBBBBBBBB''"
    by (simp_all add: draw_a_def draw_b_def)
  show ?thesis
    using h2 h3 h4 h5 h6 h7 h8 a b c d by (simp add: e run_Nil)
qed

text \<open>
  Claim C9. The code \<open>c\<close> is stored for \<open>(cid0, uri0)\<close>, and \<open>good\<close> is an exchange request
  that presents it with this client id and redirect uri and credentials that pass the
  client check: in the state at hand it would be granted. An exchange \<open>bad\<close> that passes
  the client check and presents \<open>c\<close> with another client id or another redirect uri is
  refused with \<^verbatim>\<open>invalid_grant\<close> and 400, and the only change it makes is that \<open>c\<close> is
  gone from \<^verbatim>\<open>auth_codes\<close>: the handler pops the code before it compares. After that,
  and after any later requests that do not draw \<open>c\<close> again, the request \<open>good\<close> is
  refused with \<^verbatim>\<open>invalid_grant\<close> as well.
\<close>

theorem C9_mismatch_burns_the_code:
  assumes stored: "auth_codes s c = Some (cid0, uri0)"
    and bad_grant: "bad ''grant_type'' = Some ''authorization_code''"
    and bad_code: "bad ''code'' = Some c"
    and bad_client: "dict_get (VALID_CLIENTS cfg) (bad ''client_id'') = bad ''client_secret''"
    and mismatch: "bad ''client_id'' \<noteq> cid0 \<or> bad ''redirect_uri'' \<noteq> uri0"
    and good_grant: "good ''grant_type'' = Some ''authorization_code''"
    and good_code: "good ''code'' = Some c"
    and good_client: "good ''client_id'' = cid0"
    and good_uri: "good ''redirect_uri'' = uri0"
    and good_secret: "dict_get (VALID_CLIENTS cfg) cid0 = good ''client_secret''"
  shows "fst (token cfg good rnd' s) = (GrantBody (rnd' 16) ''Bearer'' 3600 (Some (rnd' 24)), 200)
       \<and> token cfg bad rnd s
           = ((ErrorBody ''invalid_grant'', 400), s\<lparr>auth_codes := (auth_codes s)(c := None)\<rparr>)
       \<and> auth_codes (snd (token cfg bad rnd s)) c = None
       \<and> (\<forall>later. (\<forall>r \<in> set later. issued_code r \<noteq> Some c) \<longrightarrow>
             auth_codes (run cfg later (snd (token cfg bad rnd s))) c = None
           \<and> fst (token cfg good rnd' (run cfg later (snd (token cfg bad rnd s))))
               = (ErrorBody ''invalid_grant'', 400))"
proof -
  have before: "auth_codes s c = Some (good ''client_id'', good ''redirect_uri'')"
    using stored good_client good_uri by simp
  have check: "dict_get (VALID_CLIENTS cfg) (good ''client_id'') = good ''client_secret''"
    using good_client good_secret by simp
  have would: "fst (token cfg good rnd' s)
      = (GrantBody (rnd' 16) ''Bearer'' 3600 (Some (rnd' 24)), 200)"
    by (simp add: token_exchange_grant [OF good_grant good_code before check])
  note burnt = token_exchange_mismatch [OF bad_grant bad_code stored bad_client mismatch, of rnd]
  have gone: "auth_codes (snd (token cfg bad rnd s)) c = None"
    by (simp add: burnt)
  have after: "auth_codes (run cfg later (snd (token cfg bad rnd s))) c = None
           \<and> fst (token cfg good rnd' (run cfg later (snd (token cfg bad rnd s))))
               = (ErrorBody ''invalid_grant'', 400)"
    if quiet: "\<forall>r \<in> set later. issued_code r \<noteq> Some c" for later
  proof -
    have absent: "auth_codes (run cfg later (snd (token cfg bad rnd s))) c = None"
      using run_code_absent [OF gone quiet] .
    show ?thesis
      using absent token_exchange_absent [OF good_grant good_code absent check] by simp
  qed
  show ?thesis
    using would burnt gone after by blast
qed


text \<open>
  The theorem on a fresh server after a login submission: the exchange with the stored
  redirect uri would be granted; one with another redirect uri is refused and removes
  the code; the first is then refused too.
\<close>

theorem C9_mismatch_burns_the_code_witness:
  "auth_codes issued ''AAAAAAAAAAA''
     = Some (Some ''google-client'', Some ''https://oauth-redirect.example/r/project'')
   \<and> wrong_uri_form ''redirect_uri'' \<noteq> Some ''https://oauth-redirect.example/r/project''
   \<and> dict_get (VALID_CLIENTS demo_config) (wrong_uri_form ''client_id'')
       = wrong_uri_form ''client_secret''
   \<and> fst (token demo_config exchange_form draw_c issued)
       = (GrantBody ''CCCCCCCCCCCCCCCCCCCCCA'' ''Bearer'' 3600
            (Some ''CCCCCCCCCCCCCCCCCCCCCCCCCCCCCCCC''), 200)
   \<and> fst (token demo_config wrong_uri_form draw_b issued) = (ErrorBody ''invalid_grant'', 400)
   \<and> auth_codes (snd (token demo_config wrong_uri_form draw_b issued)) ''AAAAAAAAAAA'' = None
   \<and> fst (token demo_config exchange_form draw_c
            (run demo_config traffic (snd (token demo_config wrong_uri_form draw_b issued))))
       = (ErrorBody ''invalid_grant'', 400)"
proof -
  have stored: "auth_codes issued ''AAAAAAAAAAA''
     = Some (Some ''google-client'', Some ''https://oauth-redirect.example/r/project'')"
    by (simp add: issued_def authorize_post login_form_def draw_a_def)
  have b1: "wrong_uri_form ''grant_type'' = Some ''authorization_code''"
    and b2: "wrong_uri_form ''code'' = Some ''AAAAAAAAAAA''"
    and b3: "dict_get (VALID_CLIENTS demo_config) (wrong_uri_form ''client_id'')
       = wrong_uri_form ''client_secret''"
    and b4: "wrong_uri_form ''client_id'' \<noteq> Some ''google-client''
       \<or> wrong_uri_form ''redirect_uri'' \<noteq> Some ''https://oauth-redirect.example/r/project''"
    and b5: "wrong_uri_form ''redirect_uri'' \<noteq> Some ''https://oauth-redirect.example/r/project''"
    by (simp_all add: wrong_uri_form_def exchange_form_def demo_config_def dict_get_def)
  have g1: "exchange_form ''grant_type'' = Some ''authorization_code''"
    and g2: "exchange_form ''code'' = Some ''AAAAAAAAAAA''"
    and g3: "exchange_form ''client_id'' = Some ''google-client''"
    and g4: "exchange_form ''redirect_uri'' = Some ''https://oauth-redirect.example/r/project''"
    and g5: "dict_get (VALID_CLIENTS demo_config) (Some ''google-client'')
       = exchange_form ''client_secret''"
    by (simp_all add: exchange_form_def demo_config_def dict_get_def)
  have quiet: "\<forall>r \<in> set traffic. issued_code r \<noteq> Some ''AAAAAAAAAAA''"
    by (simp add: traffic_def draw_b_def)
  note main = C9_mismatch_burns_the_code [OF stored b1 b2 b3 b4 g1 g2 g3 g4 g5, of draw_c draw_b]
  from main have a: "fst (token demo_config exchange_form draw_c issued)
       = (GrantBody (draw_c 16) ''Bearer'' 3600 (Some (draw_c 24)), 200)"
    and b: "token demo_config wrong_uri_form draw_b issued
       = ((ErrorBody ''invalid_grant'', 400),
          issued\<lparr>auth_codes := (auth_codes issued)(''AAAAAAAAAAA'' := None)\<rparr>)"
    and c: "auth_codes (snd (token demo_config wrong_uri_form draw_b issued)) ''AAAAAAAAAAA'' = None"
    by blast+
  from main quiet
  have d: "fst (token demo_config exchange_form draw_c
            (run demo_config traffic (snd (token demo_config wrong_uri_form draw_b issued))))
       = (ErrorBody ''invalid_grant'', 400)"
    by blast
  have e: "draw_c 16 = ''CCCCCCCCCCCCCCCCCCCCCA''" "draw_c 24 = ''CCCCCCCCCCCCCCCCCCCCCCCCCCCCCCCC''"
    by (simp_all add: draw_c_def)
  show ?thesis
    using stored b3 b5 a c d by (simp add: b e)
qed

end
